theory Spec2Isabelle
  imports Complex_Main
begin

section \<open>Data model\<close>

text \<open>
  The reseller back end bills the creation and modification of panel users against a
  prepaid wallet. The embedding follows \<^verbatim>\<open>marzban_user_service.py\<close>,
  \<^verbatim>\<open>reseller_pricing_service.py\<close> and the SQLAlchemy models they read.

  Monetary columns are \<^verbatim>\<open>DECIMAL(10, 2)\<close> and the service computes with Python's
  \<^verbatim>\<open>Decimal\<close>; a decimal is modelled by the rational number it denotes, which is
  what \<^verbatim>\<open>Decimal\<close> computes as long as a result has no more than the 28 significant
  digits of the default context. The requested data limit arrives as a float and enters
  the cost as \<^verbatim>\<open>Decimal(str(gb))\<close>; the model takes that decimal value as the request
  field.
\<close>

type_synonym decimal = rat

record pricing_plan =
  plan_id :: nat
  plan_name :: string
  duration_days :: int
  price :: decimal

record reseller_pricing =
  rp_id :: nat
  rp_reseller_id :: nat
  pricing_plan_id :: "nat option"
  custom_price_per_gb :: "decimal option"
  rp_marzban_panel_id :: "nat option"

record marzban_panel =
  panel_id :: nat
  panel_name :: string
  api_url :: string
  admin_username :: string

text \<open>
  \<^verbatim>\<open>Reseller.panels\<close> is the relationship through \<^verbatim>\<open>reseller_panel_accesses\<close>; the
  service reads only the ids of the panels in it.
\<close>

record reseller =
  reseller_id :: nat
  marzban_admin_id :: int
  wallet_balance :: decimal
  allow_negative_balance :: bool
  panels :: "nat list"

text \<open>
  A user object as the panel's API returns it. The service reads the keys
  \<^verbatim>\<open>username\<close>, \<^verbatim>\<open>expire\<close> and \<^verbatim>\<open>creator_admin_id\<close>; the rest of the JSON object is
  kept as an opaque value.
\<close>

record api_user =
  au_username :: "string option"
  au_expire :: "int option"
  au_creator_admin_id :: "int option"
  au_rest :: nat

record marzban_user =
  mu_id :: nat
  marzban_username :: string
  marzban_panel_id :: nat
  mu_reseller_id :: nat
  created_by_new_panel :: bool
  mu_notes :: "string option"
  last_synced_at :: int
  api_response_data :: "api_user option"

record transaction =
  tx_reseller_id :: nat
  amount :: decimal
  tx_marzban_user_id :: "nat option"
  tx_pricing_plan_id :: "nat option"
  tx_reseller_pricing_id :: "nat option"

record db =
  marzban_panels :: "marzban_panel list"
  pricing_plans :: "pricing_plan list"
  reseller_pricings :: "reseller_pricing list"
  marzban_users :: "marzban_user list"
  transactions :: "transaction list"

subsection \<open>Exceptions\<close>

text \<open>
  Every failure of the service is a \<^verbatim>\<open>MarzbanUserServiceError\<close> whose message tells the
  cases apart; \<open>service_error\<close> has one constructor for each message the service
  formats, with the values it interpolates.
\<close>

datatype service_error =
    NoPanelAccess nat
  | TargetPanelNotFound nat
  | NoActivePricing
  | DataLimitRequired
  | InvalidPricingConfiguration
  | InsufficientWalletBalance decimal decimal
  | NoPanelCredentials string
  | PanelAuthenticationFailed string
  | MarzbanAPIErrorOnCreate string
  | UnexpectedCreateResponse
  | DatabaseErrorAfterCreation string "string option" string
  | UserNotFoundOrNotOwned
  | PanelDetailsNotFound
  | DataLimitNotPositive
  | NoCustomGBPricing
  | ExpireDaysNotPositive
  | NoRenewalPlan
  | PlanDurationMismatch int int
  | NothingToUpdate
  | InsufficientWalletBalanceForModification decimal decimal
  | MarzbanAPIErrorOnUpdate string
  | UnexpectedUpdateResponse
  | DatabaseErrorAfterModification string string string
  | MissingCredentials nat
  | SyncAuthenticationFailed nat

text \<open>
  The exception classes that leave the service: its own error, the API client's
  \<^verbatim>\<open>MarzbanAPIError\<close> (message and HTTP status), Python's \<^verbatim>\<open>TypeError\<close>, and the
  exceptions of the database session, kept by their text.
\<close>

datatype exc =
    MarzbanUserServiceError service_error
  | MarzbanAPIError string "int option"
  | TypeError string
  | SQLAlchemyError string



section \<open>Pricing resolution\<close>

text \<open>
  \<^verbatim>\<open>get_active_pricing_for_reseller\<close>: the panel-specific row first, the generic row
  (panel id \<^verbatim>\<open>NULL\<close>) otherwise. \<^verbatim>\<open>.first()\<close> is the first matching row.
\<close>

definition get_active_pricing_for_reseller ::
  "db \<Rightarrow> nat \<Rightarrow> nat option \<Rightarrow> reseller_pricing option" where
  "get_active_pricing_for_reseller d rid pid =
     (let pricing =
        (case pid of
           None \<Rightarrow> None
         | Some p \<Rightarrow>
             find (\<lambda>c. rp_reseller_id c = rid \<and> rp_marzban_panel_id c = Some p)
               (reseller_pricings d))
      in case pricing of
           Some c \<Rightarrow> Some c
         | None \<Rightarrow>
             find (\<lambda>c. rp_reseller_id c = rid \<and> rp_marzban_panel_id c = None)
               (reseller_pricings d))"

text \<open>
  \<^verbatim>\<open>ResellerPricing.pricing_plan\<close> is the relationship over the foreign key
  \<^verbatim>\<open>pricing_plan_id\<close>.
\<close>

definition pricing_plan_of :: "db \<Rightarrow> reseller_pricing \<Rightarrow> pricing_plan option" where
  "pricing_plan_of d c =
     (case pricing_plan_id c of
        None \<Rightarrow> None
      | Some i \<Rightarrow> find (\<lambda>p. plan_id p = i) (pricing_plans d))"

section \<open>Cost\<close>

text \<open>
  \<^verbatim>\<open>x.quantize(Decimal('0.01'), rounding=ROUND_HALF_UP)\<close>: the nearest multiple of
  one hundredth, a tie going away from zero.
\<close>

definition quantize_half_up :: "decimal \<Rightarrow> decimal" where
  "quantize_half_up x =
     (if 0 \<le> x then of_int \<lfloor>x * 100 + 1 / 2\<rfloor> / 100
      else - (of_int \<lfloor>- x * 100 + 1 / 2\<rfloor> / 100))"

record create_request =
  req_marzban_panel_id :: nat
  req_username :: string
  req_data_limit_gb :: "decimal option"
  req_expire_days :: "int option"
  req_note :: "string option"

record priced =
  pr_cost :: decimal
  pr_pricing_plan_id :: "nat option"
  pr_reseller_pricing_id :: "nat option"

text \<open>Step 2 of \<^verbatim>\<open>create_marzban_user_for_reseller\<close>, from the pricing row on.\<close>

definition create_cost ::
  "db \<Rightarrow> reseller_pricing \<Rightarrow> create_request \<Rightarrow> service_error + priced" where
  "create_cost d c req =
     (case custom_price_per_gb c of
        Some rate \<Rightarrow>
          (case req_data_limit_gb req of
             None \<Rightarrow> Inl DataLimitRequired
           | Some gb \<Rightarrow>
               if gb \<le> 0 then Inl DataLimitRequired
               else Inr \<lparr>pr_cost = quantize_half_up (gb * rate),
                         pr_pricing_plan_id = None,
                         pr_reseller_pricing_id = Some (rp_id c)\<rparr>)
      | None \<Rightarrow>
          (case pricing_plan_of d c of
             Some plan \<Rightarrow>
               Inr \<lparr>pr_cost = price plan,
                     pr_pricing_plan_id = pricing_plan_id c,
                     pr_reseller_pricing_id = Some (rp_id c)\<rparr>
           | None \<Rightarrow> Inl InvalidPricingConfiguration))"

text \<open>Steps 1 and 2: panel access, the panel row, the pricing row and the cost.\<close>

record checked =
  ck_panel :: marzban_panel
  ck_priced :: priced

definition create_pricing ::
  "db \<Rightarrow> reseller \<Rightarrow> create_request \<Rightarrow> service_error + checked" where
  "create_pricing d r req =
     (if req_marzban_panel_id req \<notin> set (panels r)
      then Inl (NoPanelAccess (req_marzban_panel_id req))
      else case find (\<lambda>p. panel_id p = req_marzban_panel_id req) (marzban_panels d) of
        None \<Rightarrow> Inl (TargetPanelNotFound (req_marzban_panel_id req))
      | Some target_panel \<Rightarrow>
          (case get_active_pricing_for_reseller d (reseller_id r)
                  (Some (panel_id target_panel)) of
             None \<Rightarrow> Inl NoActivePricing
           | Some active_pricing \<Rightarrow>
               (case create_cost d active_pricing req of
                  Inl err \<Rightarrow> Inl err
                | Inr p \<Rightarrow> Inr \<lparr>ck_panel = target_panel, ck_priced = p\<rparr>)))"

text \<open>
  Step 3, the wallet check. Nothing is written and nothing is sent before it has passed.
\<close>

definition create_checks ::
  "db \<Rightarrow> reseller \<Rightarrow> create_request \<Rightarrow> service_error + checked" where
  "create_checks d r req =
     (case create_pricing d r req of
        Inl err \<Rightarrow> Inl err
      | Inr ck \<Rightarrow>
          let cost = pr_cost (ck_priced ck)
          in if wallet_balance r < cost \<and> \<not> allow_negative_balance r
             then Inl (InsufficientWalletBalance cost (wallet_balance r))
             else Inr ck)"


section \<open>Collaborators\<close>

text \<open>
  What the collaborators answer during one invocation: the clock, the host's time zone,
  the secret store, the panel's HTTP API and the database session's commit. Every
  function of \<^verbatim>\<open>marzban_api_client.py\<close> either returns or raises
  \<^verbatim>\<open>MarzbanAPIError\<close> with a message and, for an HTTP error, the status code: its
  handlers turn every other exception into that class.
\<close>

datatype 'a reply = Returns 'a | Raises string "int option"

text \<open>
  \<open>utcnow\<close> is \<^verbatim>\<open>datetime.utcnow()\<close>, a naive datetime, counted in microseconds from
  1970-01-01 00:00:00 on its own wall clock; one reading serves the whole invocation. \<open>utc_offset\<close> is the number of seconds the
  host's local time zone is ahead of UTC. \<open>write_error i\<close> is the exception text of
  the database write in iteration \<open>i\<close> of the sync loop, if that write fails.
\<close>

record env =
  utcnow :: int
  utc_offset :: int
  decrypted_password :: "nat \<Rightarrow> string option"
  token_reply :: "string option reply"
  update_reply :: "api_user option reply"
  users_reply :: "api_user list reply"
  commit_error :: "string option"
  write_error :: "nat \<Rightarrow> string option"

record update_payload =
  pl_data_limit_gb :: "decimal option"
  pl_expire :: "int option"
  pl_proxies :: "nat option"
  pl_inbounds :: "nat option"

datatype remote_call =
    TokenRequest string string
  | CreateUserRequest string string int "int option"
  | UpdateUserRequest string string update_payload
  | UsersRequest string

text \<open>
  What an operation leaves behind: its result, the reseller, the tables, the requests sent.
  A recorded request keeps the data limit in GB; the byte count the client sends is the
  floating-point product \<^verbatim>\<open>int(gb * 1024 * 1024 * 1024)\<close>.
\<close>

record 'a outcome =
  result :: "exc + 'a"
  reseller_after :: reseller
  db_after :: db
  remote_calls :: "remote_call list"

text \<open>Python's truth value of an optional string: \<^verbatim>\<open>None\<close> and \<^verbatim>\<open>""\<close> are false.\<close>

definition truthy :: "string option \<Rightarrow> bool" where
  "truthy s = (case s of None \<Rightarrow> False | Some t \<Rightarrow> t \<noteq> [])"

definition username_of :: "api_user \<Rightarrow> string option" where
  "username_of a = (if truthy (au_username a) then au_username a else None)"

subsection \<open>Naive datetimes\<close>

definition timedelta_days :: "int \<Rightarrow> int" where
  "timedelta_days n = n * 86400000000"

definition utcfromtimestamp :: "int \<Rightarrow> int" where
  "utcfromtimestamp ts = ts * 1000000"

text \<open>
  \<^verbatim>\<open>int(dt.timestamp())\<close> for a naive \<open>dt\<close>: Python reads a naive datetime as local
  time, so the POSIX timestamp is the wall-clock count less the zone's offset;
  \<^verbatim>\<open>int\<close> truncates towards zero.
\<close>

definition int_timestamp :: "env \<Rightarrow> int \<Rightarrow> int" where
  "int_timestamp e dt =
     (let us = dt - utc_offset e * 1000000
      in if 0 \<le> us then us div 1000000 else - ((- us) div 1000000))"

definition days_to_timestamp :: "env \<Rightarrow> int option \<Rightarrow> int option" where
  "days_to_timestamp e days =
     (case days of
        None \<Rightarrow> None
      | Some n \<Rightarrow> Some (int_timestamp e (utcnow e + timedelta_days n)))"


section \<open>Creating a user\<close>

text \<open>
  Step 4 of \<^verbatim>\<open>create_marzban_user_for_reseller\<close> calls
  \<^verbatim>\<open>create_marzban_user(panel_url=..., token=..., username=..., ...)\<close>. The module
  \<^verbatim>\<open>marzban_user_service.py\<close> binds that name once, to its own helper
  \<^verbatim>\<open>create_marzban_user(db, user_in, commit=True)\<close> that inserts a local row; from the
  API client it imports \<^verbatim>\<open>get_marzban_access_token\<close>, \<^verbatim>\<open>get_marzban_users\<close>,
  \<^verbatim>\<open>update_marzban_user\<close> (as \<^verbatim>\<open>update_marzban_user_on_panel\<close>) and
  \<^verbatim>\<open>get_marzban_user_usage\<close>, never the client's \<^verbatim>\<open>create_marzban_user\<close>. The helper
  has no parameter \<^verbatim>\<open>panel_url\<close>, so the call raises \<^verbatim>\<open>TypeError\<close> before anything is
  sent. The operation is modelled for either binding of the name: \<open>LocalRowHelper\<close>,
  the module as it is written, and \<open>PanelApiClient rep\<close>, the client's function of
  \<^verbatim>\<open>marzban_api_client.py\<close> whose HTTP exchange ends in \<open>rep\<close>.
\<close>

datatype create_binding = LocalRowHelper | PanelApiClient "api_user option reply"

definition create_remote ::
  "create_binding \<Rightarrow> env \<Rightarrow> reseller \<Rightarrow> create_request \<Rightarrow> marzban_panel
     \<Rightarrow> (exc + api_user \<times> string) \<times> remote_call list" where
  "create_remote b e r req target_panel =
     (if \<not> truthy (decrypted_password e (panel_id target_panel))
      then (Inl (MarzbanUserServiceError (NoPanelCredentials (panel_name target_panel))), [])
      else
        let token_call = TokenRequest (api_url target_panel) (admin_username target_panel)
        in case token_reply e of
             Raises m st \<Rightarrow> (Inl (MarzbanAPIError m st), [token_call])
           | Returns marzban_token \<Rightarrow>
               if \<not> truthy marzban_token
               then (Inl (MarzbanUserServiceError
                            (PanelAuthenticationFailed (panel_name target_panel))),
                     [token_call])
               else
                 (case b of
                    LocalRowHelper \<Rightarrow>
                      (Inl (TypeError ''create_marzban_user() got an unexpected keyword argument''),
                       [token_call])
                  | PanelApiClient rep \<Rightarrow>
                      let calls =
                            [token_call,
                             CreateUserRequest (api_url target_panel) (req_username req)
                               (marzban_admin_id r)
                               (days_to_timestamp e (req_expire_days req))]
                      in case rep of
                           Raises m st \<Rightarrow>
                             (Inl (MarzbanUserServiceError (MarzbanAPIErrorOnCreate m)), calls)
                         | Returns None \<Rightarrow>
                             (Inl (MarzbanUserServiceError UnexpectedCreateResponse), calls)
                         | Returns (Some a) \<Rightarrow>
                             (case username_of a of
                                None \<Rightarrow>
                                  (Inl (MarzbanUserServiceError UnexpectedCreateResponse), calls)
                              | Some n \<Rightarrow> (Inr (a, n), calls))))"

text \<open>
  Step 5, one database transaction: the wallet debit, the mirror row, the ledger row and
  the commit. The flush raises on the unique key (username, panel); the commit raises
  when the session says so. Either way the session is rolled back and the service
  raises its own error with the exception text, the remote username and the panel name.
\<close>

definition fresh_user_id :: "db \<Rightarrow> nat" where
  "fresh_user_id d = Suc (fold max (map mu_id (marzban_users d)) 0)"

definition mirrored :: "db \<Rightarrow> string \<Rightarrow> nat \<Rightarrow> marzban_user option" where
  "mirrored d n p =
     find (\<lambda>u. marzban_username u = n \<and> marzban_panel_id u = p) (marzban_users d)"

definition create_commit ::
  "env \<Rightarrow> db \<Rightarrow> reseller \<Rightarrow> create_request \<Rightarrow> checked \<Rightarrow> api_user \<Rightarrow> string
     \<Rightarrow> service_error + reseller \<times> db \<times> marzban_user" where
  "create_commit e d r req ck a n =
     (let target_panel = ck_panel ck;
          cost = pr_cost (ck_priced ck);
          db_local_marzban_user =
            \<lparr>mu_id = fresh_user_id d,
             marzban_username = n,
             marzban_panel_id = panel_id target_panel,
             mu_reseller_id = reseller_id r,
             created_by_new_panel = True,
             mu_notes = req_note req,
             last_synced_at = utcnow e,
             api_response_data = Some a\<rparr>;
          db_transaction =
            \<lparr>tx_reseller_id = reseller_id r,
             amount = - cost,
             tx_marzban_user_id = Some (mu_id db_local_marzban_user),
             tx_pricing_plan_id = pr_pricing_plan_id (ck_priced ck),
             tx_reseller_pricing_id = pr_reseller_pricing_id (ck_priced ck)\<rparr>
      in if mirrored d n (panel_id target_panel) \<noteq> None
         then Inl (DatabaseErrorAfterCreation ''IntegrityError'' (au_username a)
                     (panel_name target_panel))
         else case commit_error e of
           Some msg \<Rightarrow>
             Inl (DatabaseErrorAfterCreation msg (au_username a) (panel_name target_panel))
         | None \<Rightarrow>
             Inr (r\<lparr>wallet_balance := wallet_balance r - cost\<rparr>,
                  d\<lparr>marzban_users := marzban_users d @ [db_local_marzban_user],
                    transactions := transactions d @ [db_transaction]\<rparr>,
                  db_local_marzban_user))"

definition create_marzban_user_for_reseller ::
  "create_binding \<Rightarrow> env \<Rightarrow> db \<Rightarrow> reseller \<Rightarrow> create_request \<Rightarrow> marzban_user outcome" where
  "create_marzban_user_for_reseller b e d r req =
     (case create_checks d r req of
        Inl err \<Rightarrow>
          \<lparr>result = Inl (MarzbanUserServiceError err), reseller_after = r, db_after = d,
           remote_calls = []\<rparr>
      | Inr ck \<Rightarrow>
          (case create_remote b e r req (ck_panel ck) of
             (Inl x, calls) \<Rightarrow>
               \<lparr>result = Inl x, reseller_after = r, db_after = d, remote_calls = calls\<rparr>
           | (Inr (a, n), calls) \<Rightarrow>
               (case create_commit e d r req ck a n of
                  Inl err \<Rightarrow>
                    \<lparr>result = Inl (MarzbanUserServiceError err), reseller_after = r,
                     db_after = d, remote_calls = calls\<rparr>
                | Inr (r', d', u) \<Rightarrow>
                    \<lparr>result = Inr u, reseller_after = r', db_after = d',
                     remote_calls = calls\<rparr>)))"


section \<open>Modifying a user\<close>

record update_request =
  upd_data_limit_gb :: "decimal option"
  upd_expire_days_to_add :: "int option"
  upd_proxies :: "nat option"
  upd_inbounds :: "nat option"
  upd_note :: "string option"

text \<open>
  The expiry sent for an extension by \<open>days\<close>: from the mirror's last known
  \<^verbatim>\<open>expire\<close> when that lies in the future, from now otherwise.
\<close>

definition new_expire :: "env \<Rightarrow> marzban_user \<Rightarrow> int \<Rightarrow> int" where
  "new_expire e local_db_user days =
     (let current_expire_ts =
            (case api_response_data local_db_user of
               None \<Rightarrow> None
             | Some a \<Rightarrow> au_expire a);
          current_expire_dt =
            (case current_expire_ts of
               None \<Rightarrow> utcnow e
             | Some ts \<Rightarrow>
                 if ts \<noteq> 0 \<and> ts > 0 \<and> utcfromtimestamp ts > utcnow e
                 then utcfromtimestamp ts
                 else utcnow e);
          new_expire_dt = current_expire_dt + timedelta_days days
      in int_timestamp e new_expire_dt)"

text \<open>The cost of the data limit, when the request sets one.\<close>

record data_part =
  dp_cost :: decimal
  dp_data_limit_gb :: "decimal option"
  dp_reseller_pricing_id :: "nat option"

definition modify_data_cost ::
  "reseller_pricing option \<Rightarrow> update_request \<Rightarrow> service_error + data_part" where
  "modify_data_cost active_pricing req =
     (case upd_data_limit_gb req of
        None \<Rightarrow> Inr \<lparr>dp_cost = 0, dp_data_limit_gb = None, dp_reseller_pricing_id = None\<rparr>
      | Some gb \<Rightarrow>
          if gb \<le> 0 then Inl DataLimitNotPositive
          else case active_pricing of
            None \<Rightarrow> Inl NoCustomGBPricing
          | Some c \<Rightarrow>
              (case custom_price_per_gb c of
                 None \<Rightarrow> Inl NoCustomGBPricing
               | Some rate \<Rightarrow>
                   Inr \<lparr>dp_cost = quantize_half_up (gb * rate),
                        dp_data_limit_gb = Some gb,
                        dp_reseller_pricing_id = Some (rp_id c)\<rparr>))"

text \<open>The cost of the extension, when the request asks for one.\<close>

record renewal_part =
  rn_cost :: decimal
  rn_expire :: "int option"
  rn_pricing_plan_id :: "nat option"
  rn_reseller_pricing_id :: "nat option"

definition modify_renewal_cost ::
  "env \<Rightarrow> db \<Rightarrow> reseller_pricing option \<Rightarrow> marzban_user \<Rightarrow> update_request
     \<Rightarrow> service_error + renewal_part" where
  "modify_renewal_cost e d active_pricing local_db_user req =
     (case upd_expire_days_to_add req of
        None \<Rightarrow>
          Inr \<lparr>rn_cost = 0, rn_expire = None, rn_pricing_plan_id = None,
               rn_reseller_pricing_id = None\<rparr>
      | Some days \<Rightarrow>
          if days \<le> 0 then Inl ExpireDaysNotPositive
          else case active_pricing of
            None \<Rightarrow> Inl NoRenewalPlan
          | Some c \<Rightarrow>
              (case pricing_plan_of d c of
                 None \<Rightarrow> Inl NoRenewalPlan
               | Some plan \<Rightarrow>
                   if duration_days plan = days
                   then Inr \<lparr>rn_cost = price plan,
                             rn_expire = Some (new_expire e local_db_user days),
                             rn_pricing_plan_id = pricing_plan_id c,
                             rn_reseller_pricing_id = Some (rp_id c)\<rparr>
                   else Inl (PlanDurationMismatch days (duration_days plan))))"

text \<open>
  What \<^verbatim>\<open>modify_marzban_user_for_reseller\<close> works out first: the mirror row of this
  reseller, its panel, the pricing row, both costs, the payload, and the check that
  there is something to update.
\<close>

record planned =
  pn_user :: marzban_user
  pn_panel :: marzban_panel
  pn_cost :: decimal
  pn_payload :: update_payload
  pn_pricing_plan_id :: "nat option"
  pn_reseller_pricing_id :: "nat option"

definition empty_payload :: "update_payload \<Rightarrow> bool" where
  "empty_payload pl =
     (pl_data_limit_gb pl = None \<and> pl_expire pl = None \<and> pl_proxies pl = None
      \<and> pl_inbounds pl = None)"

definition modify_plan ::
  "env \<Rightarrow> db \<Rightarrow> reseller \<Rightarrow> nat \<Rightarrow> update_request \<Rightarrow> service_error + planned" where
  "modify_plan e d r local_marzban_user_id req =
     (case find (\<lambda>u. mu_id u = local_marzban_user_id \<and> mu_reseller_id u = reseller_id r)
             (marzban_users d) of
        None \<Rightarrow> Inl UserNotFoundOrNotOwned
      | Some local_db_user \<Rightarrow>
          (case find (\<lambda>p. panel_id p = marzban_panel_id local_db_user) (marzban_panels d) of
             None \<Rightarrow> Inl PanelDetailsNotFound
           | Some target_panel \<Rightarrow>
               let active_pricing =
                     get_active_pricing_for_reseller d (reseller_id r)
                       (Some (panel_id target_panel))
               in case modify_data_cost active_pricing req of
                    Inl err \<Rightarrow> Inl err
                  | Inr dp \<Rightarrow>
                      (case modify_renewal_cost e d active_pricing local_db_user req of
                         Inl err \<Rightarrow> Inl err
                       | Inr rn \<Rightarrow>
                           let cost = dp_cost dp + rn_cost rn;
                               marzban_api_payload =
                                 \<lparr>pl_data_limit_gb = dp_data_limit_gb dp,
                                  pl_expire = rn_expire rn,
                                  pl_proxies = upd_proxies req,
                                  pl_inbounds = upd_inbounds req\<rparr>
                           in if empty_payload marzban_api_payload \<and> upd_note req = None
                              then Inl NothingToUpdate
                              else Inr \<lparr>pn_user = local_db_user,
                                        pn_panel = target_panel,
                                        pn_cost = cost,
                                        pn_payload = marzban_api_payload,
                                        pn_pricing_plan_id = rn_pricing_plan_id rn,
                                        pn_reseller_pricing_id =
                                          (case rn_reseller_pricing_id rn of
                                             Some i \<Rightarrow> Some i
                                           | None \<Rightarrow> dp_reseller_pricing_id dp)\<rparr>)))"

text \<open>The wallet check, made when a cost was incurred.\<close>

definition modify_checks ::
  "env \<Rightarrow> db \<Rightarrow> reseller \<Rightarrow> nat \<Rightarrow> update_request \<Rightarrow> service_error + planned" where
  "modify_checks e d r local_marzban_user_id req =
     (case modify_plan e d r local_marzban_user_id req of
        Inl err \<Rightarrow> Inl err
      | Inr pn \<Rightarrow>
          if 0 < pn_cost pn \<and> wallet_balance r < pn_cost pn \<and> \<not> allow_negative_balance r
          then Inl (InsufficientWalletBalanceForModification (pn_cost pn) (wallet_balance r))
          else Inr pn)"

text \<open>The panel is called when the payload is not empty; a note alone stays local.\<close>

definition modify_remote ::
  "env \<Rightarrow> planned \<Rightarrow> (exc + api_user option) \<times> remote_call list" where
  "modify_remote e pn =
     (if empty_payload (pn_payload pn) then (Inr None, [])
      else if \<not> truthy (decrypted_password e (panel_id (pn_panel pn)))
      then (Inl (MarzbanUserServiceError (NoPanelCredentials (panel_name (pn_panel pn)))), [])
      else
        let token_call = TokenRequest (api_url (pn_panel pn)) (admin_username (pn_panel pn))
        in case token_reply e of
             Raises m st \<Rightarrow> (Inl (MarzbanAPIError m st), [token_call])
           | Returns marzban_token \<Rightarrow>
               if \<not> truthy marzban_token
               then (Inl (MarzbanUserServiceError
                            (PanelAuthenticationFailed (panel_name (pn_panel pn)))),
                     [token_call])
               else
                 let calls =
                       [token_call,
                        UpdateUserRequest (api_url (pn_panel pn))
                          (marzban_username (pn_user pn)) (pn_payload pn)]
                 in case update_reply e of
                      Raises m st \<Rightarrow>
                        (Inl (MarzbanUserServiceError (MarzbanAPIErrorOnUpdate m)), calls)
                    | Returns None \<Rightarrow>
                        (Inl (MarzbanUserServiceError UnexpectedUpdateResponse), calls)
                    | Returns (Some a) \<Rightarrow> (Inr (Some a), calls))"

text \<open>Replacing a row of the mirror table, found by its primary key.\<close>

definition store_user :: "marzban_user \<Rightarrow> marzban_user list \<Rightarrow> marzban_user list" where
  "store_user u us = map (\<lambda>v. if mu_id v = mu_id u then u else v) us"

definition modify_commit ::
  "env \<Rightarrow> db \<Rightarrow> reseller \<Rightarrow> update_request \<Rightarrow> planned \<Rightarrow> api_user option
     \<Rightarrow> service_error + reseller \<times> db \<times> marzban_user" where
  "modify_commit e d r req pn updated_marzban_api_response =
     (let cost = pn_cost pn;
          local_db_user = pn_user pn;
          db_transaction =
            \<lparr>tx_reseller_id = reseller_id r,
             amount = - cost,
             tx_marzban_user_id = Some (mu_id local_db_user),
             tx_pricing_plan_id = pn_pricing_plan_id pn,
             tx_reseller_pricing_id = pn_reseller_pricing_id pn\<rparr>;
          u1 = (case updated_marzban_api_response of
                  None \<Rightarrow> local_db_user
                | Some a \<Rightarrow> local_db_user\<lparr>api_response_data := Some a\<rparr>);
          u2 = u1\<lparr>last_synced_at := utcnow e\<rparr>;
          u3 = (case upd_note req of
                  None \<Rightarrow> u2
                | Some n \<Rightarrow> u2\<lparr>mu_notes := Some n\<rparr>)
      in case commit_error e of
           Some msg \<Rightarrow>
             Inl (DatabaseErrorAfterModification msg (marzban_username local_db_user)
                    (panel_name (pn_panel pn)))
         | None \<Rightarrow>
             Inr (if 0 < cost then r\<lparr>wallet_balance := wallet_balance r - cost\<rparr> else r,
                  d\<lparr>marzban_users := store_user u3 (marzban_users d),
                    transactions :=
                      (if 0 < cost then transactions d @ [db_transaction]
                       else transactions d)\<rparr>,
                  u3))"

definition modify_marzban_user_for_reseller ::
  "env \<Rightarrow> db \<Rightarrow> reseller \<Rightarrow> nat \<Rightarrow> update_request \<Rightarrow> marzban_user outcome" where
  "modify_marzban_user_for_reseller e d r local_marzban_user_id req =
     (case modify_checks e d r local_marzban_user_id req of
        Inl err \<Rightarrow>
          \<lparr>result = Inl (MarzbanUserServiceError err), reseller_after = r, db_after = d,
           remote_calls = []\<rparr>
      | Inr pn \<Rightarrow>
          (case modify_remote e pn of
             (Inl x, calls) \<Rightarrow>
               \<lparr>result = Inl x, reseller_after = r, db_after = d, remote_calls = calls\<rparr>
           | (Inr resp, calls) \<Rightarrow>
               (case modify_commit e d r req pn resp of
                  Inl err \<Rightarrow>
                    \<lparr>result = Inl (MarzbanUserServiceError err), reseller_after = r,
                     db_after = d, remote_calls = calls\<rparr>
                | Inr (r', d', u) \<Rightarrow>
                    \<lparr>result = Inr u, reseller_after = r', db_after = d',
                     remote_calls = calls\<rparr>)))"


section \<open>Synchronising a panel\<close>

text \<open>The entries of the summary's error list, one constructor for each message.\<close>

datatype sync_note =
    NoPasswordNote nat
  | NoTokenNote nat
  | FetchFailedNote nat
  | MissingUsernameNote api_user
  | MarzbanAPIErrorNote string
  | UnexpectedErrorNote exc

record summary =
  synced_panel_id :: nat
  sm_reseller_id :: nat
  reseller_marzban_admin_id :: int
  total_users_from_api :: nat
  newly_added_count :: nat
  updated_count :: nat
  errors :: "sync_note list"

text \<open>
  \<^verbatim>\<open>get_marzban_users\<close> of the API client: the panel lists every user, and the client
  keeps those whose \<^verbatim>\<open>creator_admin_id\<close> is the reseller's admin id.
\<close>

definition get_marzban_users :: "env \<Rightarrow> int \<Rightarrow> api_user list option reply" where
  "get_marzban_users e admin_id =
     (case users_reply e of
        Raises m st \<Rightarrow> Raises m st
      | Returns users \<Rightarrow>
          Returns (Some (filter (\<lambda>user. au_creator_admin_id user = Some admin_id) users)))"

text \<open>\<^verbatim>\<open>update_marzban_user_from_api_data\<close>, on the row the lookup found.\<close>

definition update_marzban_user_from_api_data ::
  "env \<Rightarrow> db \<Rightarrow> marzban_user \<Rightarrow> api_user \<Rightarrow> db" where
  "update_marzban_user_from_api_data e d db_user user_data =
     d\<lparr>marzban_users :=
         store_user (db_user\<lparr>api_response_data := Some user_data,
                              last_synced_at := utcnow e\<rparr>)
           (marzban_users d)\<rparr>"

text \<open>
  The local \<^verbatim>\<open>create_marzban_user\<close> with the row the sync loop builds; of the note,
  which ends in the reseller's admin id, the fixed text is kept.
\<close>

definition create_marzban_user ::
  "env \<Rightarrow> db \<Rightarrow> reseller \<Rightarrow> marzban_panel \<Rightarrow> string \<Rightarrow> api_user \<Rightarrow> db" where
  "create_marzban_user e d r p n user_data =
     d\<lparr>marzban_users :=
         marzban_users d @
           [\<lparr>mu_id = fresh_user_id d,
             marzban_username = n,
             marzban_panel_id = panel_id p,
             mu_reseller_id = reseller_id r,
             created_by_new_panel = False,
             mu_notes = Some ''Synced from Marzban panel.'',
             last_synced_at = utcnow e,
             api_response_data = Some user_data\<rparr>]\<rparr>"

text \<open>
  The loop over the listed users, \<open>i\<close> counting the iterations. The first component of
  the result is the exception that left the loop, if one did; the rows written before
  it stay, since every write commits on its own.
\<close>

fun sync_loop ::
  "env \<Rightarrow> reseller \<Rightarrow> marzban_panel \<Rightarrow> nat \<Rightarrow> api_user list \<Rightarrow> db \<Rightarrow> summary
     \<Rightarrow> exc option \<times> db \<times> summary" where
  "sync_loop e r p i [] d s = (None, d, s)"
| "sync_loop e r p i (user_data # rest) d s =
     (case username_of user_data of
        None \<Rightarrow>
          sync_loop e r p (Suc i) rest d
            (s\<lparr>errors := errors s @ [MissingUsernameNote user_data]\<rparr>)
      | Some n \<Rightarrow>
          (case write_error e i of
             Some msg \<Rightarrow> (Some (SQLAlchemyError msg), d, s)
           | None \<Rightarrow>
               (case mirrored d n (panel_id p) of
                  Some db_marzban_user \<Rightarrow>
                    sync_loop e r p (Suc i) rest
                      (update_marzban_user_from_api_data e d db_marzban_user user_data)
                      (s\<lparr>updated_count := updated_count s + 1\<rparr>)
                | None \<Rightarrow>
                    sync_loop e r p (Suc i) rest
                      (create_marzban_user e d r p n user_data)
                      (s\<lparr>newly_added_count := newly_added_count s + 1\<rparr>))))"

definition sync_marzban_users_for_reseller_panel ::
  "env \<Rightarrow> db \<Rightarrow> reseller \<Rightarrow> marzban_panel \<Rightarrow> summary outcome" where
  "sync_marzban_users_for_reseller_panel e d r p =
     (let summary0 =
            \<lparr>synced_panel_id = panel_id p,
             sm_reseller_id = reseller_id r,
             reseller_marzban_admin_id = marzban_admin_id r,
             total_users_from_api = 0,
             newly_added_count = 0,
             updated_count = 0,
             errors = []\<rparr>;
          token_call = TokenRequest (api_url p) (admin_username p);
          users_call = UsersRequest (api_url p)
      in if \<not> truthy (decrypted_password e (panel_id p))
         then \<lparr>result = Inl (MarzbanUserServiceError (MissingCredentials (panel_id p))),
               reseller_after = r, db_after = d, remote_calls = []\<rparr>
         else case token_reply e of
           Raises m st \<Rightarrow>
             \<lparr>result = Inr (summary0\<lparr>errors := [MarzbanAPIErrorNote m]\<rparr>),
              reseller_after = r, db_after = d, remote_calls = [token_call]\<rparr>
         | Returns token \<Rightarrow>
             if \<not> truthy token
             then \<lparr>result =
                     Inr (summary0\<lparr>errors :=
                            [NoTokenNote (panel_id p),
                             UnexpectedErrorNote
                               (MarzbanUserServiceError
                                  (SyncAuthenticationFailed (panel_id p)))]\<rparr>),
                   reseller_after = r, db_after = d, remote_calls = [token_call]\<rparr>
             else
               (case get_marzban_users e (marzban_admin_id r) of
                  Raises m st \<Rightarrow>
                    \<lparr>result = Inr (summary0\<lparr>errors := [MarzbanAPIErrorNote m]\<rparr>),
                     reseller_after = r, db_after = d,
                     remote_calls = [token_call, users_call]\<rparr>
                | Returns None \<Rightarrow>
                    \<lparr>result = Inr (summary0\<lparr>errors := [FetchFailedNote (panel_id p)]\<rparr>),
                     reseller_after = r, db_after = d,
                     remote_calls = [token_call, users_call]\<rparr>
                | Returns (Some api_users) \<Rightarrow>
                    (case sync_loop e r p 0 api_users d
                            (summary0\<lparr>total_users_from_api := length api_users\<rparr>) of
                       (None, d', s) \<Rightarrow>
                         \<lparr>result = Inr s, reseller_after = r, db_after = d',
                          remote_calls = [token_call, users_call]\<rparr>
                     | (Some x, d', s) \<Rightarrow>
                         \<lparr>result = Inr (s\<lparr>errors := errors s @ [UnexpectedErrorNote x]\<rparr>),
                          reseller_after = r, db_after = d',
                          remote_calls = [token_call, users_call]\<rparr>)))"

section \<open>Example data\<close>

text \<open>
  The scenarios of the specification: a reseller with a balance of 10.00 who may not go
  negative, a unit rate of 5.00 per GB on the panel, and the plan "30-day-50GB" at 20.00
  for 30 days as the generic pricing.
\<close>

definition ex_plan :: pricing_plan where
  "ex_plan = \<lparr>plan_id = 3, plan_name = ''30-day-50GB'', duration_days = 30, price = 20\<rparr>"

definition ex_panel :: marzban_panel where
  "ex_panel = \<lparr>panel_id = 2, panel_name = ''main'', api_url = ''https://panel.example'',
                admin_username = ''admin''\<rparr>"

definition ex_unit_pricing :: reseller_pricing where
  "ex_unit_pricing = \<lparr>rp_id = 5, rp_reseller_id = 7, pricing_plan_id = None,
                       custom_price_per_gb = Some 5, rp_marzban_panel_id = Some 2\<rparr>"

definition ex_plan_pricing :: reseller_pricing where
  "ex_plan_pricing = \<lparr>rp_id = 6, rp_reseller_id = 7, pricing_plan_id = Some 3,
                       custom_price_per_gb = None, rp_marzban_panel_id = None\<rparr>"

definition ex_reseller :: reseller where
  "ex_reseller = \<lparr>reseller_id = 7, marzban_admin_id = 3, wallet_balance = 10,
                   allow_negative_balance = False, panels = [2]\<rparr>"

definition ex_api_user :: api_user where
  "ex_api_user = \<lparr>au_username = Some ''bob'', au_expire = None, au_creator_admin_id = Some 3,
                   au_rest = 0\<rparr>"

definition ex_mirror :: marzban_user where
  "ex_mirror = \<lparr>mu_id = 4, marzban_username = ''bob'', marzban_panel_id = 2, mu_reseller_id = 7,
                 created_by_new_panel = True, mu_notes = None, last_synced_at = 0,
                 api_response_data = None\<rparr>"

definition ex_db_unit :: db where
  "ex_db_unit = \<lparr>marzban_panels = [ex_panel], pricing_plans = [ex_plan],
                  reseller_pricings = [ex_plan_pricing, ex_unit_pricing],
                  marzban_users = [], transactions = []\<rparr>"

definition ex_db_plan :: db where
  "ex_db_plan = \<lparr>marzban_panels = [ex_panel], pricing_plans = [ex_plan],
                  reseller_pricings = [ex_plan_pricing],
                  marzban_users = [ex_mirror], transactions = []\<rparr>"

definition ex_env :: env where
  "ex_env = \<lparr>utcnow = 1700000000000000, utc_offset = 0,
              decrypted_password = (\<lambda>_. Some ''secret''),
              token_reply = Returns (Some ''token''),
              update_reply = Returns (Some ex_api_user),
              users_reply = Returns [ex_api_user],
              commit_error = None,
              write_error = (\<lambda>_. None)\<rparr>"

definition ex_request :: create_request where
  "ex_request = \<lparr>req_marzban_panel_id = 2, req_username = ''bob'', req_data_limit_gb = Some 3,
                  req_expire_days = Some 30, req_note = None\<rparr>"

definition ex_extend :: update_request where
  "ex_extend = \<lparr>upd_data_limit_gb = None, upd_expire_days_to_add = Some 30, upd_proxies = None,
                 upd_inbounds = None, upd_note = None\<rparr>"

definition ex_note_only :: update_request where
  "ex_note_only = \<lparr>upd_data_limit_gb = None, upd_expire_days_to_add = None, upd_proxies = None,
                    upd_inbounds = None, upd_note = Some ''vip''\<rparr>"

section \<open>The steps of the operations\<close>

lemmas ex_defs = ex_plan_def ex_panel_def ex_unit_pricing_def ex_plan_pricing_def ex_reseller_def
  ex_api_user_def ex_mirror_def ex_db_unit_def ex_db_plan_def ex_env_def ex_request_def
  ex_extend_def ex_note_only_def

lemmas create_defs = create_marzban_user_for_reseller_def create_checks_def create_pricing_def
  create_cost_def create_remote_def create_commit_def get_active_pricing_for_reseller_def
  pricing_plan_of_def truthy_def username_of_def mirrored_def fresh_user_id_def
  days_to_timestamp_def int_timestamp_def timedelta_days_def quantize_half_up_def

lemmas modify_defs = modify_marzban_user_for_reseller_def modify_checks_def modify_plan_def
  modify_data_cost_def modify_renewal_cost_def modify_remote_def modify_commit_def
  get_active_pricing_for_reseller_def pricing_plan_of_def truthy_def empty_payload_def
  new_expire_def utcfromtimestamp_def int_timestamp_def timedelta_days_def store_user_def
  quantize_half_up_def

lemma ex_create_insufficient:
  "create_marzban_user_for_reseller LocalRowHelper ex_env ex_db_unit ex_reseller ex_request =
     \<lparr>result = Inl (MarzbanUserServiceError (InsufficientWalletBalance 15 10)),
      reseller_after = ex_reseller, db_after = ex_db_unit, remote_calls = []\<rparr>"
  by (simp add: create_defs ex_defs Let_def floor_eq_iff)

lemma ex_create_paid:
  "wallet_balance (reseller_after
     (create_marzban_user_for_reseller (PanelApiClient (Returns (Some ex_api_user))) ex_env
        ex_db_unit (ex_reseller\<lparr>wallet_balance := 100\<rparr>) ex_request)) = 85"
  by (simp add: create_defs ex_defs Let_def floor_eq_iff)

lemma ex_modify_paid:
  "wallet_balance (reseller_after
     (modify_marzban_user_for_reseller ex_env ex_db_plan (ex_reseller\<lparr>wallet_balance := 100\<rparr>)
        4 ex_extend)) = 80"
  by (simp add: modify_defs ex_defs Let_def)

lemma ex_modify_tx:
  "transactions (db_after
     (modify_marzban_user_for_reseller ex_env ex_db_plan (ex_reseller\<lparr>wallet_balance := 100\<rparr>)
        4 ex_extend)) =
     [\<lparr>tx_reseller_id = 7, amount = - 20, tx_marzban_user_id = Some 4,
       tx_pricing_plan_id = Some 3, tx_reseller_pricing_id = Some 6\<rparr>]"
  by (simp add: modify_defs ex_defs Let_def)

lemma create_failure_untouched:
  "result (create_marzban_user_for_reseller b e d r req) = Inl x \<Longrightarrow>
     reseller_after (create_marzban_user_for_reseller b e d r req) = r
     \<and> db_after (create_marzban_user_for_reseller b e d r req) = d"
  by (auto simp: create_marzban_user_for_reseller_def split: sum.splits prod.splits)

lemma create_success_steps:
  assumes "result (create_marzban_user_for_reseller b e d r req) = Inr u"
  shows "\<exists>ck a n calls.
           create_checks d r req = Inr ck
           \<and> create_remote b e r req (ck_panel ck) = (Inr (a, n), calls)
           \<and> create_commit e d r req ck a n =
               Inr (reseller_after (create_marzban_user_for_reseller b e d r req),
                    db_after (create_marzban_user_for_reseller b e d r req), u)
           \<and> remote_calls (create_marzban_user_for_reseller b e d r req) = calls"
  using assms
  by (auto simp: create_marzban_user_for_reseller_def split: sum.splits prod.splits)

lemma create_checks_passed:
  assumes "create_checks d r req = Inr ck"
  shows "create_pricing d r req = Inr ck
         \<and> (pr_cost (ck_priced ck) \<le> wallet_balance r \<or> allow_negative_balance r)"
  using assms
  by (auto simp: create_checks_def Let_def split: sum.splits if_splits)

lemma create_commit_done:
  assumes "create_commit e d r req ck a n = Inr (r', d', u)"
  shows "r' = r\<lparr>wallet_balance := wallet_balance r - pr_cost (ck_priced ck)\<rparr>
         \<and> marzban_users d' = marzban_users d @ [u]
         \<and> (\<exists>t. transactions d' = transactions d @ [t] \<and> amount t = - pr_cost (ck_priced ck)
                \<and> tx_marzban_user_id t = Some (mu_id u)
                \<and> tx_pricing_plan_id t = pr_pricing_plan_id (ck_priced ck)
                \<and> tx_reseller_pricing_id t = pr_reseller_pricing_id (ck_priced ck))
         \<and> created_by_new_panel u \<and> api_response_data u = Some a
         \<and> mirrored d n (panel_id (ck_panel ck)) = None \<and> commit_error e = None"
  using assms
  by (auto simp: create_commit_def Let_def split: if_splits option.splits)

lemma modify_failure_untouched:
  "result (modify_marzban_user_for_reseller e d r i req) = Inl x \<Longrightarrow>
     reseller_after (modify_marzban_user_for_reseller e d r i req) = r
     \<and> db_after (modify_marzban_user_for_reseller e d r i req) = d"
  by (auto simp: modify_marzban_user_for_reseller_def split: sum.splits prod.splits)

lemma modify_success_steps:
  assumes "result (modify_marzban_user_for_reseller e d r i req) = Inr u"
  shows "\<exists>pn resp calls.
           modify_checks e d r i req = Inr pn
           \<and> modify_remote e pn = (Inr resp, calls)
           \<and> modify_commit e d r req pn resp =
               Inr (reseller_after (modify_marzban_user_for_reseller e d r i req),
                    db_after (modify_marzban_user_for_reseller e d r i req), u)
           \<and> remote_calls (modify_marzban_user_for_reseller e d r i req) = calls"
  using assms
  by (auto simp: modify_marzban_user_for_reseller_def split: sum.splits prod.splits)

lemma modify_checks_passed:
  assumes "modify_checks e d r i req = Inr pn"
  shows "modify_plan e d r i req = Inr pn
         \<and> (pn_cost pn \<le> 0 \<or> pn_cost pn \<le> wallet_balance r \<or> allow_negative_balance r)"
  using assms
  by (auto simp: modify_checks_def split: sum.splits if_splits)

lemma modify_commit_done:
  assumes "modify_commit e d r req pn resp = Inr (r', d', u)"
  shows "r' = (if 0 < pn_cost pn then r\<lparr>wallet_balance := wallet_balance r - pn_cost pn\<rparr> else r)
         \<and> commit_error e = None
         \<and> (0 < pn_cost pn \<longrightarrow>
              (\<exists>t. transactions d' = transactions d @ [t] \<and> amount t = - pn_cost pn
                   \<and> tx_pricing_plan_id t = pn_pricing_plan_id pn))
         \<and> (\<not> 0 < pn_cost pn \<longrightarrow> transactions d' = transactions d)"
  using assms
  by (auto simp: modify_commit_def Let_def split: if_splits option.splits)

lemma create_pricing_errors:
  "create_pricing d r req \<noteq> Inl (InsufficientWalletBalance X Y)"
  by (auto simp: create_pricing_def create_cost_def Let_def
           split: option.splits sum.splits if_splits)

lemma create_remote_errors:
  "fst (create_remote b e r req p) \<noteq> Inl (MarzbanUserServiceError (InsufficientWalletBalance X Y))"
  by (auto simp: create_remote_def Let_def
           split: option.splits reply.splits create_binding.splits if_splits)

lemma create_commit_errors:
  "create_commit e d r req ck a n \<noteq> Inl (InsufficientWalletBalance X Y)"
  by (auto simp: create_commit_def Let_def split: option.splits if_splits)

lemma create_insufficient_iff:
  "result (create_marzban_user_for_reseller b e d r req) =
       Inl (MarzbanUserServiceError (InsufficientWalletBalance X Y))
   \<longleftrightarrow> (\<exists>ck. create_pricing d r req = Inr ck \<and> X = pr_cost (ck_priced ck)
             \<and> Y = wallet_balance r \<and> wallet_balance r < X \<and> \<not> allow_negative_balance r)"
  (is "?L \<longleftrightarrow> ?R")
proof
  assume ?L
  show ?R
  proof (cases "create_checks d r req")
    case (Inl err)
    with \<open>?L\<close> have "err = InsufficientWalletBalance X Y"
      by (simp add: create_marzban_user_for_reseller_def)
    with Inl show ?thesis
      using create_pricing_errors [of d r req X Y]
      by (auto simp: create_checks_def Let_def split: sum.splits if_splits)
  next
    case (Inr ck)
    obtain o1 calls where cr: "create_remote b e r req (ck_panel ck) = (o1, calls)"
      by (cases "create_remote b e r req (ck_panel ck)")
    with create_remote_errors [of b e r req "ck_panel ck" X Y]
    have ne: "o1 \<noteq> Inl (MarzbanUserServiceError (InsufficientWalletBalance X Y))" by simp
    from \<open>?L\<close> Inr cr ne create_commit_errors [of e d r req ck _ _ X Y]
    show ?thesis
      by (auto simp: create_marzban_user_for_reseller_def split: sum.splits prod.splits)
  qed
next
  assume ?R
  then show ?L
    by (auto simp: create_marzban_user_for_reseller_def create_checks_def Let_def)
qed

lemma create_insufficient_untouched:
  assumes "result (create_marzban_user_for_reseller b e d r req) =
             Inl (MarzbanUserServiceError (InsufficientWalletBalance X Y))"
  shows "create_marzban_user_for_reseller b e d r req =
           \<lparr>result = Inl (MarzbanUserServiceError (InsufficientWalletBalance X Y)),
            reseller_after = r, db_after = d, remote_calls = []\<rparr>"
proof -
  from assms obtain ck where "create_pricing d r req = Inr ck" "X = pr_cost (ck_priced ck)"
    "Y = wallet_balance r" "wallet_balance r < X" "\<not> allow_negative_balance r"
    unfolding create_insufficient_iff by blast
  then show ?thesis
    by (simp add: create_marzban_user_for_reseller_def create_checks_def Let_def)
qed

lemma modify_plan_errors:
  "modify_plan e d r i req \<noteq> Inl (InsufficientWalletBalanceForModification X Y)"
  by (auto simp: modify_plan_def modify_data_cost_def modify_renewal_cost_def Let_def
           split: option.splits sum.splits if_splits)

lemma modify_remote_errors:
  "fst (modify_remote e pn) \<noteq>
     Inl (MarzbanUserServiceError (InsufficientWalletBalanceForModification X Y))"
  by (auto simp: modify_remote_def Let_def split: option.splits reply.splits if_splits)

lemma modify_commit_errors:
  "modify_commit e d r req pn resp \<noteq> Inl (InsufficientWalletBalanceForModification X Y)"
  by (auto simp: modify_commit_def Let_def split: option.splits if_splits)

lemma modify_insufficient_iff:
  "result (modify_marzban_user_for_reseller e d r i req) =
       Inl (MarzbanUserServiceError (InsufficientWalletBalanceForModification X Y))
   \<longleftrightarrow> (\<exists>pn. modify_plan e d r i req = Inr pn \<and> X = pn_cost pn \<and> Y = wallet_balance r
             \<and> 0 < X \<and> wallet_balance r < X \<and> \<not> allow_negative_balance r)"
  (is "?L \<longleftrightarrow> ?R")
proof
  assume ?L
  show ?R
  proof (cases "modify_checks e d r i req")
    case (Inl err)
    with \<open>?L\<close> have "err = InsufficientWalletBalanceForModification X Y"
      by (simp add: modify_marzban_user_for_reseller_def)
    with Inl show ?thesis
      using modify_plan_errors [of e d r i req X Y]
      by (auto simp: modify_checks_def split: sum.splits if_splits)
  next
    case (Inr pn)
    obtain o1 calls where cr: "modify_remote e pn = (o1, calls)"
      by (cases "modify_remote e pn")
    with modify_remote_errors [of e pn X Y]
    have ne: "o1 \<noteq> Inl (MarzbanUserServiceError (InsufficientWalletBalanceForModification X Y))"
      by simp
    from \<open>?L\<close> Inr cr ne modify_commit_errors [of e d r req pn _ X Y]
    show ?thesis
      by (auto simp: modify_marzban_user_for_reseller_def split: sum.splits prod.splits)
  qed
next
  assume ?R
  then show ?L
    by (auto simp: modify_marzban_user_for_reseller_def modify_checks_def)
qed

lemma modify_insufficient_untouched:
  assumes "result (modify_marzban_user_for_reseller e d r i req) =
             Inl (MarzbanUserServiceError (InsufficientWalletBalanceForModification X Y))"
  shows "modify_marzban_user_for_reseller e d r i req =
           \<lparr>result = Inl (MarzbanUserServiceError (InsufficientWalletBalanceForModification X Y)),
            reseller_after = r, db_after = d, remote_calls = []\<rparr>"
proof -
  from assms obtain pn where "modify_plan e d r i req = Inr pn" "X = pn_cost pn"
    "Y = wallet_balance r" "0 < X" "wallet_balance r < X" "\<not> allow_negative_balance r"
    unfolding modify_insufficient_iff by blast
  then show ?thesis
    by (simp add: modify_marzban_user_for_reseller_def modify_checks_def)
qed

lemma find_SomeD: "find P xs = Some x \<Longrightarrow> P x \<and> x \<in> set xs"
  by (induction xs) (auto split: if_splits)

lemma quantize_half_up_grid: "\<exists>k::int. quantize_half_up x = of_int k / 100"
proof (cases "0 \<le> x")
  case True
  then show ?thesis by (auto simp: quantize_half_up_def)
next
  case False
  then have "quantize_half_up x = of_int (- \<lfloor>- x * 100 + 1 / 2\<rfloor>) / 100"
    by (simp add: quantize_half_up_def)
  then show ?thesis by blast
qed

lemma quantize_half_up_near:
  "\<bar>quantize_half_up x - x\<bar> \<le> 1 / 200
   \<and> (0 \<le> x \<longrightarrow> x - 1 / 200 < quantize_half_up x)
   \<and> (x < 0 \<longrightarrow> quantize_half_up x < x + 1 / 200)"
proof (cases "0 \<le> x")
  case True
  define k where "k = \<lfloor>x * 100 + 1 / 2\<rfloor>"
  have b: "of_int k \<le> x * 100 + 1 / 2" "x * 100 + 1 / 2 < of_int k + 1"
    unfolding k_def by linarith+
  have q: "quantize_half_up x = of_int k / 100"
    using True by (simp add: quantize_half_up_def k_def)
  show ?thesis unfolding q using b True by (intro conjI impI; linarith)
next
  case False
  define k where "k = \<lfloor>- x * 100 + 1 / 2\<rfloor>"
  have b: "of_int k \<le> - x * 100 + 1 / 2" "- x * 100 + 1 / 2 < of_int k + 1"
    unfolding k_def by linarith+
  have q: "quantize_half_up x = - (of_int k / 100)"
    using False by (simp add: quantize_half_up_def k_def)
  show ?thesis unfolding q using b False by (intro conjI impI; linarith)
qed

lemma quantize_examples:
  "quantize_half_up (3 * (1 / 2)) = 3 / 2"
  "quantize_half_up (2333 / 1000 * (1 / 2)) = 117 / 100"
  "quantize_half_up (1 / 8) = 13 / 100"
  by (simp_all add: quantize_half_up_def floor_eq_iff)

lemma create_pricing_passed:
  assumes "create_pricing d r req = Inr ck"
  shows "\<exists>c. req_marzban_panel_id req \<in> set (panels r)
           \<and> find (\<lambda>p. panel_id p = req_marzban_panel_id req) (marzban_panels d) = Some (ck_panel ck)
           \<and> get_active_pricing_for_reseller d (reseller_id r) (Some (panel_id (ck_panel ck))) = Some c
           \<and> create_cost d c req = Inr (ck_priced ck)"
  using assms
  by (auto simp: create_pricing_def split: option.splits sum.splits if_splits)

lemma create_cost_unit:
  assumes "create_cost d c req = Inr p" and "custom_price_per_gb c = Some rate"
  shows "\<exists>gb. req_data_limit_gb req = Some gb \<and> 0 < gb \<and> pr_cost p = quantize_half_up (gb * rate)"
  using assms
  by (cases "req_data_limit_gb req") (auto simp: create_cost_def split: if_splits)

lemma create_unit_charge:
  assumes ok: "result (create_marzban_user_for_reseller b e d r req) = Inr u"
    and tp: "find (\<lambda>p. panel_id p = req_marzban_panel_id req) (marzban_panels d) = Some tp"
    and ap: "get_active_pricing_for_reseller d (reseller_id r) (Some (panel_id tp)) = Some c"
    and rate: "custom_price_per_gb c = Some rate"
  shows "\<exists>gb. req_data_limit_gb req = Some gb \<and> 0 < gb
           \<and> wallet_balance (reseller_after (create_marzban_user_for_reseller b e d r req))
               = wallet_balance r - quantize_half_up (gb * rate)"
proof -
  let ?c = "create_marzban_user_for_reseller b e d r req"
  from create_success_steps [OF ok] obtain ck a n where
    ck: "create_checks d r req = Inr ck" and
    cm: "create_commit e d r req ck a n = Inr (reseller_after ?c, db_after ?c, u)"
    by blast
  from create_checks_passed [OF ck] have "create_pricing d r req = Inr ck" by simp
  from create_pricing_passed [OF this] tp ap
  have cc: "create_cost d c req = Inr (ck_priced ck)" by auto
  from create_cost_unit [OF cc rate] obtain gb where gb: "req_data_limit_gb req = Some gb" "0 < gb"
    "pr_cost (ck_priced ck) = quantize_half_up (gb * rate)"
    by blast
  from create_commit_done [OF cm]
  have "reseller_after ?c = r\<lparr>wallet_balance := wallet_balance r - pr_cost (ck_priced ck)\<rparr>"
    by simp
  with gb show ?thesis by simp
qed

lemma pricing_precedence:
  "((\<exists>c \<in> set (reseller_pricings d). rp_reseller_id c = rid \<and> rp_marzban_panel_id c = Some pid) \<longrightarrow>
      (\<exists>c. get_active_pricing_for_reseller d rid (Some pid) = Some c
           \<and> c \<in> set (reseller_pricings d)
           \<and> rp_reseller_id c = rid \<and> rp_marzban_panel_id c = Some pid))
   \<and> (\<not> (\<exists>c \<in> set (reseller_pricings d). rp_reseller_id c = rid \<and> rp_marzban_panel_id c = Some pid) \<longrightarrow>
      (\<exists>c \<in> set (reseller_pricings d). rp_reseller_id c = rid \<and> rp_marzban_panel_id c = None) \<longrightarrow>
      (\<exists>c. get_active_pricing_for_reseller d rid (Some pid) = Some c
           \<and> c \<in> set (reseller_pricings d)
           \<and> rp_reseller_id c = rid \<and> rp_marzban_panel_id c = None))
   \<and> (\<not> (\<exists>c \<in> set (reseller_pricings d). rp_reseller_id c = rid
            \<and> (rp_marzban_panel_id c = Some pid \<or> rp_marzban_panel_id c = None)) \<longrightarrow>
      get_active_pricing_for_reseller d rid (Some pid) = None)"
proof -
  let ?S = "\<lambda>c. rp_reseller_id c = rid \<and> rp_marzban_panel_id c = Some pid"
  let ?G = "\<lambda>c. rp_reseller_id c = rid \<and> rp_marzban_panel_id c = None"
  have g: "get_active_pricing_for_reseller d rid (Some pid) =
             (case find ?S (reseller_pricings d) of Some c \<Rightarrow> Some c
              | None \<Rightarrow> find ?G (reseller_pricings d))"
    by (simp add: get_active_pricing_for_reseller_def)
  show ?thesis
  proof (cases "find ?S (reseller_pricings d)")
    case None
    then have no: "\<not> (\<exists>c \<in> set (reseller_pricings d). ?S c)"
      by (simp add: find_None_iff)
    show ?thesis
    proof (cases "find ?G (reseller_pricings d)")
      case None
      then have nog: "\<not> (\<exists>c \<in> set (reseller_pricings d). ?G c)"
        by (simp add: find_None_iff)
      have "get_active_pricing_for_reseller d rid (Some pid) = None"
        using g None \<open>find ?S (reseller_pricings d) = None\<close> by simp
      with no nog show ?thesis by blast
    next
      case (Some c)
      have "get_active_pricing_for_reseller d rid (Some pid) = Some c"
        using g Some \<open>find ?S (reseller_pricings d) = None\<close> by simp
      with find_SomeD [OF Some] no show ?thesis by blast
    qed
  next
    case (Some c)
    have "get_active_pricing_for_reseller d rid (Some pid) = Some c"
      using g Some by simp
    with find_SomeD [OF Some] show ?thesis by blast
  qed
qed

lemma create_no_pricing:
  assumes "req_marzban_panel_id req \<in> set (panels r)"
    and "find (\<lambda>p. panel_id p = req_marzban_panel_id req) (marzban_panels d) = Some tp"
    and "get_active_pricing_for_reseller d (reseller_id r) (Some (panel_id tp)) = None"
  shows "create_marzban_user_for_reseller b e d r req =
           \<lparr>result = Inl (MarzbanUserServiceError NoActivePricing),
            reseller_after = r, db_after = d, remote_calls = []\<rparr>"
  using assms
  by (simp add: create_marzban_user_for_reseller_def create_checks_def create_pricing_def)

lemma quantize_half_up_nonneg: "0 \<le> x \<Longrightarrow> 0 \<le> quantize_half_up x"
proof -
  assume x: "0 \<le> x"
  then have "0 \<le> \<lfloor>x * 100 + 1 / 2\<rfloor>" by simp
  with x show ?thesis by (simp add: quantize_half_up_def)
qed

lemma modify_plan_passed:
  assumes "modify_plan e d r i req = Inr pn"
  shows "\<exists>dp rn.
           find (\<lambda>u. mu_id u = i \<and> mu_reseller_id u = reseller_id r) (marzban_users d)
             = Some (pn_user pn)
           \<and> find (\<lambda>p. panel_id p = marzban_panel_id (pn_user pn)) (marzban_panels d)
             = Some (pn_panel pn)
           \<and> modify_data_cost
               (get_active_pricing_for_reseller d (reseller_id r) (Some (panel_id (pn_panel pn))))
               req = Inr dp
           \<and> modify_renewal_cost e d
               (get_active_pricing_for_reseller d (reseller_id r) (Some (panel_id (pn_panel pn))))
               (pn_user pn) req = Inr rn
           \<and> pn_cost pn = dp_cost dp + rn_cost rn
           \<and> pn_payload pn =
               \<lparr>pl_data_limit_gb = dp_data_limit_gb dp, pl_expire = rn_expire rn,
                pl_proxies = upd_proxies req, pl_inbounds = upd_inbounds req\<rparr>
           \<and> pn_pricing_plan_id pn = rn_pricing_plan_id rn"
  using assms
  by (auto simp: modify_plan_def Let_def split: option.splits sum.splits if_splits)

lemma modify_data_cost_unit:
  assumes "modify_data_cost (Some c) req = Inr dp" and "custom_price_per_gb c = Some rate"
    and "upd_data_limit_gb req = Some gb"
  shows "0 < gb \<and> dp_cost dp = quantize_half_up (gb * rate)"
  using assms by (auto simp: modify_data_cost_def split: if_splits)

lemma modify_renewal_none:
  assumes "modify_renewal_cost e d ap u req = Inr rn" and "upd_expire_days_to_add req = None"
  shows "rn_cost rn = 0 \<and> rn_expire rn = None"
  using assms by (auto simp: modify_renewal_cost_def)

lemma modify_unit_charge:
  assumes ok: "result (modify_marzban_user_for_reseller e d r i upd) = Inr u"
    and us: "find (\<lambda>u. mu_id u = i \<and> mu_reseller_id u = reseller_id r) (marzban_users d) = Some lu"
    and tp: "find (\<lambda>p. panel_id p = marzban_panel_id lu) (marzban_panels d) = Some tp"
    and ap: "get_active_pricing_for_reseller d (reseller_id r) (Some (panel_id tp)) = Some c"
    and rate: "custom_price_per_gb c = Some rate" "0 \<le> rate"
    and gb: "upd_data_limit_gb upd = Some gb"
    and nd: "upd_expire_days_to_add upd = None"
  shows "0 < gb \<and> wallet_balance (reseller_after (modify_marzban_user_for_reseller e d r i upd))
               = wallet_balance r - quantize_half_up (gb * rate)"
proof -
  let ?m = "modify_marzban_user_for_reseller e d r i upd"
  from modify_success_steps [OF ok] obtain pn resp where
    ck: "modify_checks e d r i upd = Inr pn" and
    cm: "modify_commit e d r upd pn resp = Inr (reseller_after ?m, db_after ?m, u)"
    by blast
  from modify_checks_passed [OF ck] have mp: "modify_plan e d r i upd = Inr pn" by simp
  from modify_plan_passed [OF mp] us tp ap obtain dp rn where
    dp: "modify_data_cost (Some c) upd = Inr dp" and
    rn: "modify_renewal_cost e d (Some c) (pn_user pn) upd = Inr rn" and
    cost: "pn_cost pn = dp_cost dp + rn_cost rn"
    by auto
  from modify_data_cost_unit [OF dp rate(1) gb] modify_renewal_none [OF rn nd] cost
  have c: "0 < gb" "pn_cost pn = quantize_half_up (gb * rate)" by simp_all
  from c(1) rate(2) have "0 \<le> gb * rate" by simp
  from quantize_half_up_nonneg [OF this] c have nn: "0 \<le> pn_cost pn" by simp
  from modify_commit_done [OF cm]
  have "reseller_after ?m =
          (if 0 < pn_cost pn then r\<lparr>wallet_balance := wallet_balance r - pn_cost pn\<rparr> else r)"
    by simp
  with nn c show ?thesis by (cases "0 < pn_cost pn") auto
qed

section \<open>The wallet never goes negative\<close>

text \<open>
  C1. For a reseller whose \<open>allow_negative_balance\<close> is false, creating a user and
  modifying one keep the flag and leave the wallet balance either as it was or at a
  value that is not negative: the debit of the cost happens only after the wallet check
  has found the balance to cover it. So a balance that is not negative stays so. For the
  creation this holds whichever function the name \<^verbatim>\<open>create_marzban_user\<close> is bound to.
\<close>

theorem C1_wallet_never_negative:
  assumes "\<not> allow_negative_balance r"
  shows "\<not> allow_negative_balance (reseller_after (create_marzban_user_for_reseller b e d r req))
       \<and> (wallet_balance (reseller_after (create_marzban_user_for_reseller b e d r req))
            = wallet_balance r
          \<or> 0 \<le> wallet_balance (reseller_after (create_marzban_user_for_reseller b e d r req)))
       \<and> \<not> allow_negative_balance
            (reseller_after (modify_marzban_user_for_reseller e' d' r i upd))
       \<and> (wallet_balance (reseller_after (modify_marzban_user_for_reseller e' d' r i upd))
            = wallet_balance r
          \<or> 0 \<le> wallet_balance (reseller_after (modify_marzban_user_for_reseller e' d' r i upd)))"
proof -
  let ?c = "create_marzban_user_for_reseller b e d r req"
  let ?m = "modify_marzban_user_for_reseller e' d' r i upd"
  have c: "\<not> allow_negative_balance (reseller_after ?c)
           \<and> (wallet_balance (reseller_after ?c) = wallet_balance r
                \<or> 0 \<le> wallet_balance (reseller_after ?c))"
  proof (cases "result ?c")
    case (Inl x)
    then show ?thesis using create_failure_untouched assms by simp
  next
    case (Inr u)
    from create_success_steps [OF Inr] obtain ck a n calls where
      ck: "create_checks d r req = Inr ck" and
      cm: "create_commit e d r req ck a n = Inr (reseller_after ?c, db_after ?c, u)"
      by blast
    from create_checks_passed [OF ck] assms
    have "pr_cost (ck_priced ck) \<le> wallet_balance r" by simp
    moreover from create_commit_done [OF cm]
    have "reseller_after ?c = r\<lparr>wallet_balance := wallet_balance r - pr_cost (ck_priced ck)\<rparr>"
      by simp
    ultimately show ?thesis using assms by simp
  qed
  have m: "\<not> allow_negative_balance (reseller_after ?m)
           \<and> (wallet_balance (reseller_after ?m) = wallet_balance r
                \<or> 0 \<le> wallet_balance (reseller_after ?m))"
  proof (cases "result ?m")
    case (Inl x)
    then show ?thesis using modify_failure_untouched assms by simp
  next
    case (Inr u)
    from modify_success_steps [OF Inr] obtain pn resp calls where
      ck: "modify_checks e' d' r i upd = Inr pn" and
      cm: "modify_commit e' d' r upd pn resp = Inr (reseller_after ?m, db_after ?m, u)"
      by blast
    from modify_checks_passed [OF ck] assms
    have "pn_cost pn \<le> 0 \<or> pn_cost pn \<le> wallet_balance r" by simp
    moreover from modify_commit_done [OF cm]
    have "reseller_after ?m =
            (if 0 < pn_cost pn then r\<lparr>wallet_balance := wallet_balance r - pn_cost pn\<rparr> else r)"
      by simp
    ultimately show ?thesis using assms by (auto split: if_splits)
  qed
  show ?thesis using c m by simp
qed

theorem C1_wallet_never_negative_witness:
  "\<not> allow_negative_balance (ex_reseller\<lparr>wallet_balance := 100\<rparr>)
   \<and> wallet_balance (reseller_after
        (create_marzban_user_for_reseller (PanelApiClient (Returns (Some ex_api_user))) ex_env
           ex_db_unit (ex_reseller\<lparr>wallet_balance := 100\<rparr>) ex_request)) = 85
   \<and> wallet_balance (reseller_after
        (modify_marzban_user_for_reseller ex_env ex_db_plan
           (ex_reseller\<lparr>wallet_balance := 100\<rparr>) 4 ex_extend)) = 80
   \<and> \<not> allow_negative_balance (reseller_after
        (create_marzban_user_for_reseller (PanelApiClient (Returns (Some ex_api_user))) ex_env
           ex_db_unit (ex_reseller\<lparr>wallet_balance := 100\<rparr>) ex_request))
   \<and> \<not> allow_negative_balance (reseller_after
        (modify_marzban_user_for_reseller ex_env ex_db_plan
           (ex_reseller\<lparr>wallet_balance := 100\<rparr>) 4 ex_extend))"
proof -
  have h: "\<not> allow_negative_balance (ex_reseller\<lparr>wallet_balance := 100\<rparr>)"
    by (simp add: ex_reseller_def)
  show ?thesis
    using h ex_create_paid ex_modify_paid
      C1_wallet_never_negative [OF h,
        of "PanelApiClient (Returns (Some ex_api_user))" ex_env ex_db_unit ex_request
           ex_env ex_db_plan 4 ex_extend]
    by simp
qed

section \<open>Insufficient funds\<close>

lemma ex_modify_insufficient:
  "modify_marzban_user_for_reseller ex_env ex_db_plan ex_reseller 4 ex_extend =
     \<lparr>result = Inl (MarzbanUserServiceError (InsufficientWalletBalanceForModification 20 10)),
      reseller_after = ex_reseller, db_after = ex_db_plan, remote_calls = []\<rparr>"
  by (simp add: modify_defs ex_defs Let_def)

lemma ex_note_only_plan:
  "modify_plan ex_env ex_db_plan (ex_reseller\<lparr>wallet_balance := - 5\<rparr>) 4 ex_note_only =
     Inr \<lparr>pn_user = ex_mirror, pn_panel = ex_panel, pn_cost = 0,
          pn_payload = \<lparr>pl_data_limit_gb = None, pl_expire = None, pl_proxies = None,
                        pl_inbounds = None\<rparr>,
          pn_pricing_plan_id = None, pn_reseller_pricing_id = None\<rparr>"
  by (simp add: modify_defs ex_defs Let_def)

lemma ex_note_only_run:
  "modify_marzban_user_for_reseller ex_env ex_db_plan (ex_reseller\<lparr>wallet_balance := - 5\<rparr>) 4
     ex_note_only =
     \<lparr>result = Inr (ex_mirror\<lparr>last_synced_at := 1700000000000000, mu_notes := Some ''vip''\<rparr>),
      reseller_after = ex_reseller\<lparr>wallet_balance := - 5\<rparr>,
      db_after = ex_db_plan\<lparr>marzban_users :=
                   [ex_mirror\<lparr>last_synced_at := 1700000000000000, mu_notes := Some ''vip''\<rparr>]\<rparr>,
      remote_calls = []\<rparr>"
  by (simp add: modify_defs ex_defs Let_def)

text \<open>
  C2, as stated, fails for a modification: a reseller who may not go negative and whose
  balance is -5.00 changes only the note of a user. The computed cost, 0.00, exceeds the
  balance, yet the wallet check is skipped for a cost that is not positive and the
  modification succeeds.
\<close>

theorem C2_counterexample:
  "\<not> isl (modify_plan ex_env ex_db_plan (ex_reseller\<lparr>wallet_balance := - 5\<rparr>) 4 ex_note_only)
   \<and> wallet_balance (ex_reseller\<lparr>wallet_balance := - 5\<rparr>)
       < pn_cost (projr (modify_plan ex_env ex_db_plan (ex_reseller\<lparr>wallet_balance := - 5\<rparr>) 4
                          ex_note_only))
   \<and> \<not> allow_negative_balance (ex_reseller\<lparr>wallet_balance := - 5\<rparr>)
   \<and> \<not> isl (result (modify_marzban_user_for_reseller ex_env ex_db_plan
                       (ex_reseller\<lparr>wallet_balance := - 5\<rparr>) 4 ex_note_only))"
  by (simp add: ex_note_only_plan ex_note_only_run) (simp add: ex_reseller_def)

text \<open>
  C2, amended. Creating a user fails with the insufficient-balance error exactly when
  the cost computed for the request exceeds the wallet balance and the reseller may not
  go negative. Modifying a user fails with it exactly when, in addition, the computed
  cost is positive. The error carries the cost and the balance, and when it is raised
  no request has been sent to the panel, no table has changed (so no ledger row exists)
  and the reseller, balance included, is as before.
\<close>

theorem C2_insufficient_funds:
  "(result (create_marzban_user_for_reseller b e d r req) =
        Inl (MarzbanUserServiceError (InsufficientWalletBalance X Y))
    \<longleftrightarrow> (\<exists>ck. create_pricing d r req = Inr ck \<and> X = pr_cost (ck_priced ck)
              \<and> Y = wallet_balance r \<and> wallet_balance r < X \<and> \<not> allow_negative_balance r))
   \<and> (result (create_marzban_user_for_reseller b e d r req) =
        Inl (MarzbanUserServiceError (InsufficientWalletBalance X Y))
      \<longrightarrow> remote_calls (create_marzban_user_for_reseller b e d r req) = []
          \<and> db_after (create_marzban_user_for_reseller b e d r req) = d
          \<and> reseller_after (create_marzban_user_for_reseller b e d r req) = r)
   \<and> (result (modify_marzban_user_for_reseller e' d' r i upd) =
        Inl (MarzbanUserServiceError (InsufficientWalletBalanceForModification X' Y'))
      \<longleftrightarrow> (\<exists>pn. modify_plan e' d' r i upd = Inr pn \<and> X' = pn_cost pn
              \<and> Y' = wallet_balance r \<and> 0 < X' \<and> wallet_balance r < X'
              \<and> \<not> allow_negative_balance r))
   \<and> (result (modify_marzban_user_for_reseller e' d' r i upd) =
        Inl (MarzbanUserServiceError (InsufficientWalletBalanceForModification X' Y'))
      \<longrightarrow> remote_calls (modify_marzban_user_for_reseller e' d' r i upd) = []
          \<and> db_after (modify_marzban_user_for_reseller e' d' r i upd) = d'
          \<and> reseller_after (modify_marzban_user_for_reseller e' d' r i upd) = r)"
proof (intro conjI impI)
  show "result (create_marzban_user_for_reseller b e d r req) =
        Inl (MarzbanUserServiceError (InsufficientWalletBalance X Y))
    \<longleftrightarrow> (\<exists>ck. create_pricing d r req = Inr ck \<and> X = pr_cost (ck_priced ck)
              \<and> Y = wallet_balance r \<and> wallet_balance r < X \<and> \<not> allow_negative_balance r)"
    by (rule create_insufficient_iff)
  show "result (modify_marzban_user_for_reseller e' d' r i upd) =
        Inl (MarzbanUserServiceError (InsufficientWalletBalanceForModification X' Y'))
      \<longleftrightarrow> (\<exists>pn. modify_plan e' d' r i upd = Inr pn \<and> X' = pn_cost pn
              \<and> Y' = wallet_balance r \<and> 0 < X' \<and> wallet_balance r < X'
              \<and> \<not> allow_negative_balance r)"
    by (rule modify_insufficient_iff)
next
  assume a: "result (create_marzban_user_for_reseller b e d r req) =
        Inl (MarzbanUserServiceError (InsufficientWalletBalance X Y))"
  from create_insufficient_untouched [OF a]
  show "remote_calls (create_marzban_user_for_reseller b e d r req) = []"
    "db_after (create_marzban_user_for_reseller b e d r req) = d"
    "reseller_after (create_marzban_user_for_reseller b e d r req) = r"
    by simp_all
next
  assume a: "result (modify_marzban_user_for_reseller e' d' r i upd) =
        Inl (MarzbanUserServiceError (InsufficientWalletBalanceForModification X' Y'))"
  from modify_insufficient_untouched [OF a]
  show "remote_calls (modify_marzban_user_for_reseller e' d' r i upd) = []"
    "db_after (modify_marzban_user_for_reseller e' d' r i upd) = d'"
    "reseller_after (modify_marzban_user_for_reseller e' d' r i upd) = r"
    by simp_all
qed

theorem C2_insufficient_funds_witness:
  "result (create_marzban_user_for_reseller LocalRowHelper ex_env ex_db_unit ex_reseller
             ex_request) = Inl (MarzbanUserServiceError (InsufficientWalletBalance 15 10))
   \<and> remote_calls (create_marzban_user_for_reseller LocalRowHelper ex_env ex_db_unit
                      ex_reseller ex_request) = []
   \<and> db_after (create_marzban_user_for_reseller LocalRowHelper ex_env ex_db_unit
                  ex_reseller ex_request) = ex_db_unit
   \<and> reseller_after (create_marzban_user_for_reseller LocalRowHelper ex_env ex_db_unit
                        ex_reseller ex_request) = ex_reseller
   \<and> result (modify_marzban_user_for_reseller ex_env ex_db_plan ex_reseller 4 ex_extend) =
       Inl (MarzbanUserServiceError (InsufficientWalletBalanceForModification 20 10))
   \<and> remote_calls (modify_marzban_user_for_reseller ex_env ex_db_plan ex_reseller 4 ex_extend)
       = []
   \<and> db_after (modify_marzban_user_for_reseller ex_env ex_db_plan ex_reseller 4 ex_extend)
       = ex_db_plan
   \<and> reseller_after (modify_marzban_user_for_reseller ex_env ex_db_plan ex_reseller 4 ex_extend)
       = ex_reseller
   \<and> (\<exists>ck. create_pricing ex_db_unit ex_reseller ex_request = Inr ck
          \<and> pr_cost (ck_priced ck) = 15 \<and> wallet_balance ex_reseller < 15
          \<and> \<not> allow_negative_balance ex_reseller)
   \<and> (\<exists>pn. modify_plan ex_env ex_db_plan ex_reseller 4 ex_extend = Inr pn
          \<and> pn_cost pn = 20 \<and> wallet_balance ex_reseller < 20
          \<and> \<not> allow_negative_balance ex_reseller)"
proof -
  have c: "result (create_marzban_user_for_reseller LocalRowHelper ex_env ex_db_unit ex_reseller
             ex_request) = Inl (MarzbanUserServiceError (InsufficientWalletBalance 15 10))"
    by (simp add: ex_create_insufficient)
  have m: "result (modify_marzban_user_for_reseller ex_env ex_db_plan ex_reseller 4 ex_extend) =
       Inl (MarzbanUserServiceError (InsufficientWalletBalanceForModification 20 10))"
    by (simp add: ex_modify_insufficient)
  show ?thesis
    using c m
      C2_insufficient_funds [of LocalRowHelper ex_env ex_db_unit ex_reseller ex_request 15 10
        ex_env ex_db_plan 4 ex_extend 20 10]
    by auto
qed

section \<open>Unit-rate cost\<close>

lemma ex_modify_data:
  "wallet_balance (reseller_after
     (modify_marzban_user_for_reseller ex_env
        (ex_db_unit\<lparr>marzban_users := [ex_mirror]\<rparr>) (ex_reseller\<lparr>wallet_balance := 100\<rparr>) 4
        (ex_note_only\<lparr>upd_data_limit_gb := Some (2333 / 1000)\<rparr>))) = 100 - 1167 / 100"
  by (simp add: modify_defs ex_defs Let_def floor_eq_iff)

text \<open>
  C4. When the pricing row carries a price per GB, the cost of creating a user is the
  requested data limit times that price, quantized to two decimals half-up, and a
  request without a data limit or with one that is not positive is refused; the cost of
  a new data limit in a modification is computed the same way and a limit that is not
  positive is refused. The quantized value is a whole number of hundredths within half a
  hundredth of the product, a tie going up; 0.50 per GB gives 1.50 for 3 GB and 1.17 for
  2.333 GB. A creation that succeeds has debited exactly that cost, and so has a
  modification that only sets the data limit, the price not being negative.
\<close>

theorem C4_unit_rate_cost:
  "(custom_price_per_gb c = Some rate \<longrightarrow>
      create_cost d c req =
        (case req_data_limit_gb req of
           None \<Rightarrow> Inl DataLimitRequired
         | Some gb \<Rightarrow>
             if gb \<le> 0 then Inl DataLimitRequired
             else Inr \<lparr>pr_cost = quantize_half_up (gb * rate), pr_pricing_plan_id = None,
                       pr_reseller_pricing_id = Some (rp_id c)\<rparr>))
   \<and> (custom_price_per_gb c = Some rate \<longrightarrow> upd_data_limit_gb upd = Some g \<longrightarrow>
      modify_data_cost (Some c) upd =
        (if g \<le> 0 then Inl DataLimitNotPositive
         else Inr \<lparr>dp_cost = quantize_half_up (g * rate), dp_data_limit_gb = Some g,
                   dp_reseller_pricing_id = Some (rp_id c)\<rparr>))
   \<and> (\<exists>k::int. quantize_half_up x = of_int k / 100)
   \<and> \<bar>quantize_half_up x - x\<bar> \<le> 1 / 200
   \<and> (0 \<le> x \<longrightarrow> x - 1 / 200 < quantize_half_up x)
   \<and> quantize_half_up (3 * (1 / 2)) = 3 / 2
   \<and> quantize_half_up (2333 / 1000 * (1 / 2)) = 117 / 100
   \<and> (result (create_marzban_user_for_reseller b e d r req) = Inr u \<longrightarrow>
      find (\<lambda>p. panel_id p = req_marzban_panel_id req) (marzban_panels d) = Some tp \<longrightarrow>
      get_active_pricing_for_reseller d (reseller_id r) (Some (panel_id tp)) = Some c \<longrightarrow>
      custom_price_per_gb c = Some rate \<longrightarrow>
      (\<exists>gb. req_data_limit_gb req = Some gb \<and> 0 < gb
         \<and> wallet_balance (reseller_after (create_marzban_user_for_reseller b e d r req))
             = wallet_balance r - quantize_half_up (gb * rate)))
   \<and> (result (modify_marzban_user_for_reseller e d r i upd) = Inr u' \<longrightarrow>
      find (\<lambda>u. mu_id u = i \<and> mu_reseller_id u = reseller_id r) (marzban_users d) = Some lu \<longrightarrow>
      find (\<lambda>p. panel_id p = marzban_panel_id lu) (marzban_panels d) = Some tp' \<longrightarrow>
      get_active_pricing_for_reseller d (reseller_id r) (Some (panel_id tp')) = Some c \<longrightarrow>
      custom_price_per_gb c = Some rate \<longrightarrow> 0 \<le> rate \<longrightarrow>
      upd_data_limit_gb upd = Some g \<longrightarrow> upd_expire_days_to_add upd = None \<longrightarrow>
      0 < g \<and> wallet_balance (reseller_after (modify_marzban_user_for_reseller e d r i upd))
             = wallet_balance r - quantize_half_up (g * rate))"
proof (intro conjI impI)
  assume "custom_price_per_gb c = Some rate"
  then show "create_cost d c req =
        (case req_data_limit_gb req of
           None \<Rightarrow> Inl DataLimitRequired
         | Some gb \<Rightarrow>
             if gb \<le> 0 then Inl DataLimitRequired
             else Inr \<lparr>pr_cost = quantize_half_up (gb * rate), pr_pricing_plan_id = None,
                       pr_reseller_pricing_id = Some (rp_id c)\<rparr>)"
    by (simp add: create_cost_def split: option.splits)
next
  assume "custom_price_per_gb c = Some rate" "upd_data_limit_gb upd = Some g"
  then show "modify_data_cost (Some c) upd =
        (if g \<le> 0 then Inl DataLimitNotPositive
         else Inr \<lparr>dp_cost = quantize_half_up (g * rate), dp_data_limit_gb = Some g,
                   dp_reseller_pricing_id = Some (rp_id c)\<rparr>)"
    by (simp add: modify_data_cost_def)
next
  show "\<exists>k::int. quantize_half_up x = of_int k / 100" by (rule quantize_half_up_grid)
  show "\<bar>quantize_half_up x - x\<bar> \<le> 1 / 200" using quantize_half_up_near [of x] by simp
  show "quantize_half_up (3 * (1 / 2)) = 3 / 2" by (rule quantize_examples)
  show "quantize_half_up (2333 / 1000 * (1 / 2)) = 117 / 100" by (rule quantize_examples)
next
  assume "0 \<le> x"
  then show "x - 1 / 200 < quantize_half_up x" using quantize_half_up_near [of x] by simp
next
  assume "result (create_marzban_user_for_reseller b e d r req) = Inr u"
    "find (\<lambda>p. panel_id p = req_marzban_panel_id req) (marzban_panels d) = Some tp"
    "get_active_pricing_for_reseller d (reseller_id r) (Some (panel_id tp)) = Some c"
    "custom_price_per_gb c = Some rate"
  then show "\<exists>gb. req_data_limit_gb req = Some gb \<and> 0 < gb
         \<and> wallet_balance (reseller_after (create_marzban_user_for_reseller b e d r req))
             = wallet_balance r - quantize_half_up (gb * rate)"
    by (rule create_unit_charge)
next
  assume a: "result (modify_marzban_user_for_reseller e d r i upd) = Inr u'"
    "find (\<lambda>u. mu_id u = i \<and> mu_reseller_id u = reseller_id r) (marzban_users d) = Some lu"
    "find (\<lambda>p. panel_id p = marzban_panel_id lu) (marzban_panels d) = Some tp'"
    "get_active_pricing_for_reseller d (reseller_id r) (Some (panel_id tp')) = Some c"
    "custom_price_per_gb c = Some rate" "0 \<le> rate"
    "upd_data_limit_gb upd = Some g" "upd_expire_days_to_add upd = None"
  from modify_unit_charge [OF a]
  show "0 < g" "wallet_balance (reseller_after (modify_marzban_user_for_reseller e d r i upd))
             = wallet_balance r - quantize_half_up (g * rate)"
    by simp_all
qed

theorem C4_unit_rate_cost_witness:
  "create_cost ex_db_unit ex_unit_pricing ex_request =
     Inr \<lparr>pr_cost = 15, pr_pricing_plan_id = None, pr_reseller_pricing_id = Some 5\<rparr>
   \<and> modify_data_cost (Some ex_unit_pricing)
        (ex_note_only\<lparr>upd_data_limit_gb := Some (2333 / 1000)\<rparr>) =
       Inr \<lparr>dp_cost = 1167 / 100, dp_data_limit_gb = Some (2333 / 1000),
            dp_reseller_pricing_id = Some 5\<rparr>
   \<and> wallet_balance (reseller_after
        (create_marzban_user_for_reseller (PanelApiClient (Returns (Some ex_api_user))) ex_env
           ex_db_unit (ex_reseller\<lparr>wallet_balance := 100\<rparr>) ex_request)) = 100 - 15
   \<and> wallet_balance (reseller_after
        (modify_marzban_user_for_reseller ex_env (ex_db_unit\<lparr>marzban_users := [ex_mirror]\<rparr>)
           (ex_reseller\<lparr>wallet_balance := 100\<rparr>) 4
           (ex_note_only\<lparr>upd_data_limit_gb := Some (2333 / 1000)\<rparr>))) = 100 - 1167 / 100"
proof -
  let ?r = "ex_reseller\<lparr>wallet_balance := 100\<rparr>"
  let ?b = "PanelApiClient (Returns (Some ex_api_user))"
  let ?d = "ex_db_unit\<lparr>marzban_users := [ex_mirror]\<rparr>"
  let ?upd = "ex_note_only\<lparr>upd_data_limit_gb := Some (2333 / 1000)\<rparr>"
  have rate: "custom_price_per_gb ex_unit_pricing = Some 5"
    by (simp add: ex_defs)
  have q: "quantize_half_up (3 * 5) = 15" "quantize_half_up (2333 / 1000 * 5) = 1167 / 100"
    by (simp_all add: quantize_half_up_def floor_eq_iff)
  have gb: "req_data_limit_gb ex_request = Some 3" "upd_data_limit_gb ?upd = Some (2333 / 1000)"
    "upd_expire_days_to_add ?upd = None"
    by (simp_all add: ex_defs)
  have c1: "\<exists>u. result (create_marzban_user_for_reseller ?b ex_env ex_db_unit ?r ex_request) = Inr u"
    by (simp add: create_defs ex_defs Let_def floor_eq_iff)
  have c2: "find (\<lambda>p. panel_id p = req_marzban_panel_id ex_request) (marzban_panels ex_db_unit)
              = Some ex_panel"
    "get_active_pricing_for_reseller ex_db_unit (reseller_id ?r) (Some (panel_id ex_panel))
       = Some ex_unit_pricing"
    by (simp_all add: get_active_pricing_for_reseller_def ex_defs)
  have m1: "\<exists>u. result (modify_marzban_user_for_reseller ex_env ?d ?r 4 ?upd) = Inr u"
    by (simp add: modify_defs ex_defs Let_def floor_eq_iff)
  have m2: "find (\<lambda>u. mu_id u = 4 \<and> mu_reseller_id u = reseller_id ?r) (marzban_users ?d)
              = Some ex_mirror"
    "find (\<lambda>p. panel_id p = marzban_panel_id ex_mirror) (marzban_panels ?d) = Some ex_panel"
    "get_active_pricing_for_reseller ?d (reseller_id ?r) (Some (panel_id ex_panel))
       = Some ex_unit_pricing"
    by (simp_all add: get_active_pricing_for_reseller_def ex_defs)
  from c1 obtain u where u: "result (create_marzban_user_for_reseller ?b ex_env ex_db_unit ?r
    ex_request) = Inr u" by blast
  from m1 obtain u' where u': "result (modify_marzban_user_for_reseller ex_env ?d ?r 4 ?upd)
    = Inr u'" by blast
  show ?thesis
    using rate q gb u c2
      C4_unit_rate_cost [where c = ex_unit_pricing and rate = 5 and d = ex_db_unit
        and req = ex_request and b = ?b and e = ex_env and r = ?r and u = u and tp = ex_panel
        and upd = ?upd and g = "2333 / 1000"]
      u' m2
      C4_unit_rate_cost [where c = ex_unit_pricing and rate = 5 and d = ?d
        and e = ex_env and r = ?r and i = 4 and upd = ?upd and g = "2333 / 1000" and u' = u'
        and lu = ex_mirror and tp' = ex_panel]
    by (auto simp: ex_unit_pricing_def)
qed

section \<open>Pricing resolution and the missing pricing\<close>

text \<open>
  C5. For a reseller and a panel, the pricing row is a row of that reseller for that
  panel whenever one exists; failing that it is a generic row of the reseller (panel
  \<^verbatim>\<open>NULL\<close>) whenever one exists; it is absent when there is neither. A creation on a
  panel the reseller may use, for which no pricing row is found, fails with the error
  that no active pricing is configured: nothing is sent, nothing is written and the
  wallet is as before.
\<close>

theorem C5_pricing_resolution:
  "((\<exists>c \<in> set (reseller_pricings d). rp_reseller_id c = rid \<and> rp_marzban_panel_id c = Some pid)
      \<longrightarrow> (\<exists>c. get_active_pricing_for_reseller d rid (Some pid) = Some c
               \<and> c \<in> set (reseller_pricings d)
               \<and> rp_reseller_id c = rid \<and> rp_marzban_panel_id c = Some pid))
   \<and> (\<not> (\<exists>c \<in> set (reseller_pricings d). rp_reseller_id c = rid
             \<and> rp_marzban_panel_id c = Some pid) \<longrightarrow>
      (\<exists>c \<in> set (reseller_pricings d). rp_reseller_id c = rid \<and> rp_marzban_panel_id c = None)
      \<longrightarrow> (\<exists>c. get_active_pricing_for_reseller d rid (Some pid) = Some c
               \<and> c \<in> set (reseller_pricings d)
               \<and> rp_reseller_id c = rid \<and> rp_marzban_panel_id c = None))
   \<and> (\<not> (\<exists>c \<in> set (reseller_pricings d). rp_reseller_id c = rid
            \<and> (rp_marzban_panel_id c = Some pid \<or> rp_marzban_panel_id c = None)) \<longrightarrow>
      get_active_pricing_for_reseller d rid (Some pid) = None)
   \<and> (req_marzban_panel_id req \<in> set (panels r) \<longrightarrow>
      find (\<lambda>p. panel_id p = req_marzban_panel_id req) (marzban_panels d) = Some tp \<longrightarrow>
      get_active_pricing_for_reseller d (reseller_id r) (Some (panel_id tp)) = None \<longrightarrow>
      create_marzban_user_for_reseller b e d r req =
        \<lparr>result = Inl (MarzbanUserServiceError NoActivePricing),
         reseller_after = r, db_after = d, remote_calls = []\<rparr>)"
  using pricing_precedence [of d rid pid] create_no_pricing [of req r d tp b e]
  by blast

theorem C5_pricing_resolution_witness:
  "get_active_pricing_for_reseller ex_db_unit 7 (Some 2) = Some ex_unit_pricing
   \<and> get_active_pricing_for_reseller ex_db_plan 7 (Some 2) = Some ex_plan_pricing
   \<and> get_active_pricing_for_reseller ex_db_plan 8 (Some 2) = None
   \<and> create_marzban_user_for_reseller LocalRowHelper ex_env ex_db_plan
        (ex_reseller\<lparr>reseller_id := 8\<rparr>) ex_request =
        \<lparr>result = Inl (MarzbanUserServiceError NoActivePricing),
         reseller_after = ex_reseller\<lparr>reseller_id := 8\<rparr>, db_after = ex_db_plan,
         remote_calls = []\<rparr>"
proof -
  have s: "\<exists>c \<in> set (reseller_pricings ex_db_unit).
             rp_reseller_id c = 7 \<and> rp_marzban_panel_id c = Some 2"
    by (simp add: ex_defs)
  have g: "\<not> (\<exists>c \<in> set (reseller_pricings ex_db_plan).
             rp_reseller_id c = 7 \<and> rp_marzban_panel_id c = Some 2)"
    "\<exists>c \<in> set (reseller_pricings ex_db_plan). rp_reseller_id c = 7 \<and> rp_marzban_panel_id c = None"
    by (simp_all add: ex_defs)
  have n: "\<not> (\<exists>c \<in> set (reseller_pricings ex_db_plan). rp_reseller_id c = 8
            \<and> (rp_marzban_panel_id c = Some 2 \<or> rp_marzban_panel_id c = None))"
    by (simp add: ex_defs)
  have a: "req_marzban_panel_id ex_request \<in> set (panels (ex_reseller\<lparr>reseller_id := 8\<rparr>))"
    "find (\<lambda>p. panel_id p = req_marzban_panel_id ex_request) (marzban_panels ex_db_plan)
       = Some ex_panel"
    "reseller_id (ex_reseller\<lparr>reseller_id := 8\<rparr>) = 8" "panel_id ex_panel = 2"
    by (simp_all add: ex_defs)
  have u: "\<And>c. c \<in> set (reseller_pricings ex_db_unit) \<and> rp_reseller_id c = 7
               \<and> rp_marzban_panel_id c = Some 2 \<Longrightarrow> c = ex_unit_pricing"
    "\<And>c. c \<in> set (reseller_pricings ex_db_plan) \<Longrightarrow> c = ex_plan_pricing"
    by (auto simp: ex_defs)
  from s C5_pricing_resolution [of ex_db_unit 7 2] u(1)
  have 1: "get_active_pricing_for_reseller ex_db_unit 7 (Some 2) = Some ex_unit_pricing"
    by blast
  from g C5_pricing_resolution [of ex_db_plan 7 2] u(2)
  have 2: "get_active_pricing_for_reseller ex_db_plan 7 (Some 2) = Some ex_plan_pricing"
    by blast
  from n C5_pricing_resolution [of ex_db_plan 8 2]
  have 3: "get_active_pricing_for_reseller ex_db_plan 8 (Some 2) = None"
    by blast
  from a 3 C5_pricing_resolution [of ex_db_plan 8 2 ex_request "ex_reseller\<lparr>reseller_id := 8\<rparr>"
    ex_panel LocalRowHelper ex_env]
  have 4: "create_marzban_user_for_reseller LocalRowHelper ex_env ex_db_plan
        (ex_reseller\<lparr>reseller_id := 8\<rparr>) ex_request =
        \<lparr>result = Inl (MarzbanUserServiceError NoActivePricing),
         reseller_after = ex_reseller\<lparr>reseller_id := 8\<rparr>, db_after = ex_db_plan,
         remote_calls = []\<rparr>"
    by simp
  from 1 2 3 4 show ?thesis by simp
qed

section \<open>Plan pricing and the requested duration\<close>






section \<open>The expiry sent for an extension\<close>

lemma new_expire_base:
  assumes "0 \<le> utcnow e"
  shows "new_expire e u days =
           int_timestamp e
             (max (utcnow e)
                (utcfromtimestamp
                   (case api_response_data u of
                      None \<Rightarrow> 0
                    | Some a \<Rightarrow> (case au_expire a of None \<Rightarrow> 0 | Some ts \<Rightarrow> ts)))
              + timedelta_days days)"
proof -
  have aux: "\<And>ts::int. \<not> 0 < ts \<Longrightarrow> utcnow e \<le> ts * 1000000 \<Longrightarrow> utcnow e = ts * 1000000"
    using assms by linarith
  have aux0: "utcnow e \<le> 0 \<Longrightarrow> utcnow e = 0"
    using assms by linarith
  show ?thesis
    by (auto simp: new_expire_def utcfromtimestamp_def Let_def max_def split: option.splits
             dest: aux aux0)
qed

text \<open>
  On a host whose local time zone is UTC the expiry sent is the later of now and the last
  known expiry, in whole seconds, plus the requested days.
\<close>

lemma new_expire_on_utc_host:
  assumes "utc_offset e = 0" and "0 \<le> utcnow e" and "0 \<le> days"
  shows "new_expire e u days =
           max (utcnow e)
             (utcfromtimestamp
                (case api_response_data u of
                   None \<Rightarrow> 0
                 | Some a \<Rightarrow> (case au_expire a of None \<Rightarrow> 0 | Some ts \<Rightarrow> ts)))
           div 1000000 + days * 86400"
proof -
  let ?m = "max (utcnow e)
             (utcfromtimestamp
                (case api_response_data u of
                   None \<Rightarrow> 0
                 | Some a \<Rightarrow> (case au_expire a of None \<Rightarrow> 0 | Some ts \<Rightarrow> ts)))"
  have m: "0 \<le> ?m" using assms(2) by simp
  have "new_expire e u days = int_timestamp e (?m + timedelta_days days)"
    by (rule new_expire_base [OF assms(2)])
  also have "\<dots> = (?m + days * 86400 * 1000000) div 1000000"
    using assms m by (simp add: int_timestamp_def timedelta_days_def Let_def)
  also have "\<dots> = ?m div 1000000 + days * 86400"
    by simp
  finally show ?thesis .
qed

text \<open>
  C6 at a host in the time zone UTC+03:30: the clock reads 1700000000 seconds, the mirror
  has no expiry, and 30 days are asked for. The later of now and the last known expiry
  plus 30 days is 1702592000; the request sent to the panel carries 1702579400, which is
  12600 seconds, the zone's offset, earlier.
\<close>

theorem C6_expiry_on_offset_host:
  "utcnow (ex_env\<lparr>utc_offset := 12600\<rparr>) = 1700000000 * 1000000
   \<and> api_response_data ex_mirror = None
   \<and> new_expire (ex_env\<lparr>utc_offset := 12600\<rparr>) ex_mirror 30 = 1700000000 + 30 * 86400 - 12600
   \<and> remote_calls
        (modify_marzban_user_for_reseller (ex_env\<lparr>utc_offset := 12600\<rparr>) ex_db_plan
           (ex_reseller\<lparr>wallet_balance := 100\<rparr>) 4 ex_extend) =
       [TokenRequest ''https://panel.example'' ''admin'',
        UpdateUserRequest ''https://panel.example'' ''bob''
          \<lparr>pl_data_limit_gb = None, pl_expire = Some 1702579400, pl_proxies = None,
           pl_inbounds = None\<rparr>]"
  by (simp add: modify_defs ex_defs Let_def)

section \<open>Errors of the panel on creation\<close>

text \<open>
  As the module is written, a creation that has passed its checks and obtained a token
  ends in \<^verbatim>\<open>TypeError\<close>: no create request is sent, so no answer of the panel, a
  username conflict or any other, is ever turned into an error of the service.
\<close>

lemma create_as_written:
  assumes "create_checks d r req = Inr ck"
    and "truthy (decrypted_password e (panel_id (ck_panel ck)))"
    and "token_reply e = Returns tok" and "truthy tok"
  shows "create_marzban_user_for_reseller LocalRowHelper e d r req =
           \<lparr>result = Inl (TypeError ''create_marzban_user() got an unexpected keyword argument''),
            reseller_after = r, db_after = d,
            remote_calls = [TokenRequest (api_url (ck_panel ck)) (admin_username (ck_panel ck))]\<rparr>"
  using assms
  by (simp add: create_marzban_user_for_reseller_def create_remote_def Let_def)

lemma create_as_written_never_succeeds:
  "result (create_marzban_user_for_reseller LocalRowHelper e d r req) \<noteq> Inr u"
  "result (create_marzban_user_for_reseller LocalRowHelper e d r req) \<noteq>
     Inl (MarzbanUserServiceError (MarzbanAPIErrorOnCreate m))"
  by (auto simp: create_marzban_user_for_reseller_def create_remote_def create_checks_def
        create_pricing_def create_cost_def Let_def
      split: sum.splits prod.splits reply.splits option.splits if_splits)

text \<open>
  With the API client's function bound to the name, every \<^verbatim>\<open>MarzbanAPIError\<close> of the
  create request becomes the same error of the service, which carries the client's
  message and nothing else.
\<close>

lemma create_api_error_one_kind:
  assumes "create_checks d r req = Inr ck"
    and "truthy (decrypted_password e (panel_id (ck_panel ck)))"
    and "token_reply e = Returns tok" and "truthy tok"
  shows "result (create_marzban_user_for_reseller (PanelApiClient (Raises m st)) e d r req) =
           Inl (MarzbanUserServiceError (MarzbanAPIErrorOnCreate m))"
  using assms
  by (simp add: create_marzban_user_for_reseller_def create_remote_def Let_def)

text \<open>
  C7 at a request that passes every check (unit pricing, 3 GB, a balance of 100.00): the
  service raises \<^verbatim>\<open>TypeError\<close> after the token request and sends no create request,
  whatever the panel would have answered.
\<close>

theorem C7_create_raises_type_error:
  "create_marzban_user_for_reseller LocalRowHelper ex_env ex_db_unit
     (ex_reseller\<lparr>wallet_balance := 100\<rparr>) ex_request =
     \<lparr>result = Inl (TypeError ''create_marzban_user() got an unexpected keyword argument''),
      reseller_after = ex_reseller\<lparr>wallet_balance := 100\<rparr>, db_after = ex_db_unit,
      remote_calls = [TokenRequest ''https://panel.example'' ''admin'']\<rparr>"
  by (simp add: create_defs ex_defs Let_def floor_eq_iff)

section \<open>A commit that fails after the panel has answered\<close>











section \<open>Synchronisation\<close>

lemma fold_max_ge: "a \<le> fold max xs (a::nat) \<and> (\<forall>x \<in> set xs. x \<le> fold max xs a)"
proof (induction xs arbitrary: a)
  case Nil
  show ?case by simp
next
  case (Cons y ys)
  from Cons [of "max y a"] show ?case by auto
qed

lemma fresh_user_id_new: "u \<in> set (marzban_users d) \<Longrightarrow> mu_id u \<noteq> fresh_user_id d"
proof -
  assume "u \<in> set (marzban_users d)"
  then have "mu_id u \<in> set (map mu_id (marzban_users d))" by simp
  with fold_max_ge [of 0 "map mu_id (marzban_users d)"]
  have "mu_id u \<le> fold max (map mu_id (marzban_users d)) 0" by blast
  then show ?thesis by (simp add: fresh_user_id_def)
qed

lemma mirrored_iff:
  "mirrored d n p \<noteq> None \<longleftrightarrow>
     (\<exists>u \<in> set (marzban_users d). marzban_username u = n \<and> marzban_panel_id u = p)"
  by (auto simp: mirrored_def find_None_iff)

lemma mirrored_SomeD:
  "mirrored d n p = Some u \<Longrightarrow>
     u \<in> set (marzban_users d) \<and> marzban_username u = n \<and> marzban_panel_id u = p"
  unfolding mirrored_def by (drule find_SomeD) simp

lemma create_distinct:
  assumes "distinct (map mu_id (marzban_users d))"
  shows "distinct (map mu_id (marzban_users (create_marzban_user e d r p n a)))"
proof -
  have "fresh_user_id d \<notin> mu_id ` set (marzban_users d)"
    using fresh_user_id_new [of _ d] by force
  with assms show ?thesis by (simp add: create_marzban_user_def)
qed

lemma update_ids:
  "map mu_id (marzban_users (update_marzban_user_from_api_data e d u a)) =
     map mu_id (marzban_users d)"
  by (simp add: update_marzban_user_from_api_data_def store_user_def comp_def)

lemma create_mirrored:
  "mirrored (create_marzban_user e d r p n a) m q \<noteq> None \<longleftrightarrow>
     mirrored d m q \<noteq> None \<or> (m = n \<and> q = panel_id p)"
  unfolding mirrored_iff by (auto simp: create_marzban_user_def)

lemma update_mirrored:
  assumes dist: "distinct (map mu_id (marzban_users d))"
    and found: "mirrored d n p = Some u"
  shows "mirrored (update_marzban_user_from_api_data e d u a) m q \<noteq> None \<longleftrightarrow>
           mirrored d m q \<noteq> None"
proof -
  let ?u' = "u\<lparr>api_response_data := Some a, last_synced_at := utcnow e\<rparr>"
  from mirrored_SomeD [OF found] have u: "u \<in> set (marzban_users d)" by simp
  have same: "\<And>v. v \<in> set (marzban_users d) \<Longrightarrow> mu_id v = mu_id u \<Longrightarrow> v = u"
    using dist u by (meson distinct_map inj_onD)
  define f where "f = (\<lambda>v. if mu_id v = mu_id ?u' then ?u' else v)"
  have users: "marzban_users (update_marzban_user_from_api_data e d u a) =
                 map f (marzban_users d)"
    by (simp add: update_marzban_user_from_api_data_def store_user_def f_def)
  have key: "\<And>v. v \<in> set (marzban_users d) \<Longrightarrow>
               marzban_username (f v) = marzban_username v
               \<and> marzban_panel_id (f v) = marzban_panel_id v"
    using same by (auto simp: f_def)
  show ?thesis
    unfolding mirrored_iff users by (auto simp: key)
qed

lemma sync_loop_counts:
  "sync_loop e r p i us d s = (None, d', s') \<Longrightarrow>
     total_users_from_api s' = total_users_from_api s
     \<and> newly_added_count s' + updated_count s' =
         newly_added_count s + updated_count s
           + length (filter (\<lambda>a. username_of a \<noteq> None) us)
     \<and> errors s' = errors s @ map MissingUsernameNote (filter (\<lambda>a. username_of a = None) us)"
proof (induction us arbitrary: i d s)
  case Nil
  then show ?case by simp
next
  case (Cons a us)
  show ?case
  proof (cases "username_of a")
    case None
    with Cons.prems have "sync_loop e r p (Suc i) us d
        (s\<lparr>errors := errors s @ [MissingUsernameNote a]\<rparr>) = (None, d', s')"
      by simp
    from Cons.IH [OF this] None show ?thesis by simp
  next
    case (Some n)
    with Cons.prems have w: "write_error e i = None"
      by (auto split: option.splits)
    show ?thesis
    proof (cases "mirrored d n (panel_id p)")
      case None
      with Cons.prems Some w have "sync_loop e r p (Suc i) us
          (create_marzban_user e d r p n a)
          (s\<lparr>newly_added_count := newly_added_count s + 1\<rparr>) = (None, d', s')"
        by simp
      from Cons.IH [OF this] Some show ?thesis by simp
    next
      case (Some u)
      with Cons.prems \<open>username_of a = Some n\<close> w have "sync_loop e r p (Suc i) us
          (update_marzban_user_from_api_data e d u a)
          (s\<lparr>updated_count := updated_count s + 1\<rparr>) = (None, d', s')"
        by simp
      from Cons.IH [OF this] \<open>username_of a = Some n\<close> show ?thesis by simp
    qed
  qed
qed

lemma sync_loop_mirrors:
  "distinct (map mu_id (marzban_users d)) \<Longrightarrow>
   sync_loop e r p i us d s = (None, d', s') \<Longrightarrow>
     distinct (map mu_id (marzban_users d'))
     \<and> (\<forall>m q. mirrored d m q \<noteq> None \<longrightarrow> mirrored d' m q \<noteq> None)
     \<and> (\<forall>a \<in> set us. \<forall>n. username_of a = Some n \<longrightarrow> mirrored d' n (panel_id p) \<noteq> None)"
proof (induction us arbitrary: i d s)
  case Nil
  then show ?case by simp
next
  case (Cons a us)
  show ?case
  proof (cases "username_of a")
    case None
    with Cons.prems have "sync_loop e r p (Suc i) us d
        (s\<lparr>errors := errors s @ [MissingUsernameNote a]\<rparr>) = (None, d', s')"
      by simp
    from Cons.IH [OF Cons.prems(1) this] None show ?thesis by simp
  next
    case (Some n)
    with Cons.prems have w: "write_error e i = None"
      by (auto split: option.splits)
    show ?thesis
    proof (cases "mirrored d n (panel_id p)")
      case None
      let ?d1 = "create_marzban_user e d r p n a"
      from Cons.prems Some w None have l: "sync_loop e r p (Suc i) us ?d1
          (s\<lparr>newly_added_count := newly_added_count s + 1\<rparr>) = (None, d', s')"
        by simp
      have d1: "distinct (map mu_id (marzban_users ?d1))"
        by (rule create_distinct [OF Cons.prems(1)])
      from Cons.IH [OF d1 l] Some create_mirrored [of e d r p n a]
      show ?thesis by auto
    next
      case (Some u)
      let ?d1 = "update_marzban_user_from_api_data e d u a"
      from Cons.prems \<open>username_of a = Some n\<close> w Some
      have l: "sync_loop e r p (Suc i) us ?d1
          (s\<lparr>updated_count := updated_count s + 1\<rparr>) = (None, d', s')"
        by simp
      have d1: "distinct (map mu_id (marzban_users ?d1))"
        using Cons.prems(1) by (simp add: update_ids)
      have keep: "\<And>m q. mirrored ?d1 m q \<noteq> None \<longleftrightarrow> mirrored d m q \<noteq> None"
        by (rule update_mirrored [OF Cons.prems(1) Some])
      have here: "mirrored d n (panel_id p) \<noteq> None" using Some by simp
      from Cons.IH [OF d1 l] keep here \<open>username_of a = Some n\<close>
      show ?thesis by auto
    qed
  qed
qed

lemma sync_loop_nothing_new:
  "distinct (map mu_id (marzban_users d)) \<Longrightarrow>
   \<forall>a \<in> set us. \<forall>n. username_of a = Some n \<longrightarrow> mirrored d n (panel_id p) \<noteq> None \<Longrightarrow>
   sync_loop e r p i us d s = (x, d', s') \<Longrightarrow>
     newly_added_count s' = newly_added_count s"
proof (induction us arbitrary: i d s)
  case Nil
  then show ?case by simp
next
  case (Cons a us)
  show ?case
  proof (cases "username_of a")
    case None
    with Cons.prems have "sync_loop e r p (Suc i) us d
        (s\<lparr>errors := errors s @ [MissingUsernameNote a]\<rparr>) = (x, d', s')"
      by simp
    from Cons.IH [OF Cons.prems(1) _ this] Cons.prems(2) show ?thesis by simp
  next
    case (Some n)
    with Cons.prems(2) obtain u where u: "mirrored d n (panel_id p) = Some u"
      by auto
    show ?thesis
    proof (cases "write_error e i")
      case (Some msg)
      with Cons.prems(3) \<open>username_of a = Some n\<close> show ?thesis by simp
    next
      case None
      let ?d1 = "update_marzban_user_from_api_data e d u a"
      from Cons.prems(3) \<open>username_of a = Some n\<close> None u
      have l: "sync_loop e r p (Suc i) us ?d1
          (s\<lparr>updated_count := updated_count s + 1\<rparr>) = (x, d', s')"
        by simp
      have d1: "distinct (map mu_id (marzban_users ?d1))"
        using Cons.prems(1) by (simp add: update_ids)
      have keep: "\<And>m q. mirrored ?d1 m q \<noteq> None \<longleftrightarrow> mirrored d m q \<noteq> None"
        by (rule update_mirrored [OF Cons.prems(1) u])
      have rest: "\<forall>a \<in> set us. \<forall>n. username_of a = Some n \<longrightarrow>
                    mirrored ?d1 n (panel_id p) \<noteq> None"
        using Cons.prems(2) keep by simp
      from Cons.IH [OF d1 rest l] show ?thesis by simp
    qed
  qed
qed

lemma find_map_same:
  assumes "\<And>x. x \<in> set xs \<Longrightarrow> P (f x) = P x"
  shows "find P (map f xs) = map_option f (find P xs)"
  using assms by (induction xs) auto

lemma update_mirrored_row:
  assumes dist: "distinct (map mu_id (marzban_users d))"
    and found: "mirrored d n p = Some u"
  shows "mirrored (update_marzban_user_from_api_data e d u a) m q =
           (if m = n \<and> q = p
            then Some (u\<lparr>api_response_data := Some a, last_synced_at := utcnow e\<rparr>)
            else mirrored d m q)"
proof -
  let ?u' = "u\<lparr>api_response_data := Some a, last_synced_at := utcnow e\<rparr>"
  define f where "f = (\<lambda>v. if mu_id v = mu_id ?u' then ?u' else v)"
  from mirrored_SomeD [OF found] have u: "u \<in> set (marzban_users d)"
    "marzban_username u = n" "marzban_panel_id u = p" by simp_all
  have same: "\<And>v. v \<in> set (marzban_users d) \<Longrightarrow> mu_id v = mu_id u \<Longrightarrow> v = u"
    using dist u(1) by (meson distinct_map inj_onD)
  have users: "marzban_users (update_marzban_user_from_api_data e d u a) =
                 map f (marzban_users d)"
    by (simp add: update_marzban_user_from_api_data_def store_user_def f_def)
  have key: "\<And>v. v \<in> set (marzban_users d) \<Longrightarrow>
               (marzban_username (f v) = m \<and> marzban_panel_id (f v) = q)
               = (marzban_username v = m \<and> marzban_panel_id v = q)"
    using same by (auto simp: f_def)
  have fm: "mirrored (update_marzban_user_from_api_data e d u a) m q =
              map_option f (mirrored d m q)"
    unfolding mirrored_def users
    by (rule find_map_same) (rule key)
  show ?thesis
  proof (cases "m = n \<and> q = p")
    case True
    with fm found show ?thesis by (simp add: f_def)
  next
    case False
    show ?thesis
    proof (cases "mirrored d m q")
      case None
      with fm False show ?thesis by simp
    next
      case (Some v)
      from mirrored_SomeD [OF Some] have v: "v \<in> set (marzban_users d)"
        "marzban_username v = m" "marzban_panel_id v = q" by simp_all
      with False u have "v \<noteq> u" by auto
      with same [OF v(1)] have "mu_id v \<noteq> mu_id u" by blast
      then have "f v = v" by (simp add: f_def)
      with fm Some False show ?thesis by auto
    qed
  qed
qed

lemma sync_loop_refreshes:
  "distinct (map mu_id (marzban_users d)) \<Longrightarrow>
   \<forall>a \<in> set us. \<forall>n. username_of a = Some n \<longrightarrow> mirrored d n (panel_id p) \<noteq> None \<Longrightarrow>
   sync_loop e r p i us d s = (None, d', s') \<Longrightarrow>
     map mu_id (marzban_users d') = map mu_id (marzban_users d)
     \<and> (\<forall>m q. (\<forall>a \<in> set us. username_of a \<noteq> Some m) \<or> q \<noteq> panel_id p \<longrightarrow>
            mirrored d' m q = mirrored d m q)
     \<and> (\<forall>n. (\<exists>a \<in> set us. username_of a = Some n) \<longrightarrow>
            (\<exists>u. mirrored d' n (panel_id p) = Some u
                 \<and> last_synced_at u = utcnow e
                 \<and> api_response_data u =
                     Some (last (filter (\<lambda>a. username_of a = Some n) us))))"
proof (induction us arbitrary: i d s)
  case Nil
  then show ?case by simp
next
  case (Cons a us)
  show ?case
  proof (cases "username_of a")
    case None
    with Cons.prems have l: "sync_loop e r p (Suc i) us d
        (s\<lparr>errors := errors s @ [MissingUsernameNote a]\<rparr>) = (None, d', s')"
      by simp
    have rest: "\<forall>a \<in> set us. \<forall>n. username_of a = Some n \<longrightarrow> mirrored d n (panel_id p) \<noteq> None"
      using Cons.prems(2) by simp
    from Cons.IH [OF Cons.prems(1) rest l] None show ?thesis by simp
  next
    case (Some n)
    with Cons.prems(2) obtain u where u: "mirrored d n (panel_id p) = Some u"
      by auto
    from Cons.prems(3) Some have w: "write_error e i = None"
      by (auto split: option.splits)
    let ?u' = "u\<lparr>api_response_data := Some a, last_synced_at := utcnow e\<rparr>"
    let ?d1 = "update_marzban_user_from_api_data e d u a"
    from Cons.prems(3) Some w u
    have l: "sync_loop e r p (Suc i) us ?d1
        (s\<lparr>updated_count := updated_count s + 1\<rparr>) = (None, d', s')"
      by simp
    have d1: "distinct (map mu_id (marzban_users ?d1))"
      using Cons.prems(1) by (simp add: update_ids)
    have row: "\<And>m q. mirrored ?d1 m q =
                 (if m = n \<and> q = panel_id p then Some ?u' else mirrored d m q)"
      by (rule update_mirrored_row [OF Cons.prems(1) u])
    have rest: "\<forall>a \<in> set us. \<forall>n. username_of a = Some n \<longrightarrow>
                  mirrored ?d1 n (panel_id p) \<noteq> None"
      using Cons.prems(2) row by simp
    note ih = Cons.IH [OF d1 rest l]
    have ids: "map mu_id (marzban_users d') = map mu_id (marzban_users d)"
      using ih by (simp add: update_ids)
    have other: "\<forall>m q. (\<forall>b \<in> set (a # us). username_of b \<noteq> Some m) \<or> q \<noteq> panel_id p \<longrightarrow>
                   mirrored d' m q = mirrored d m q"
    proof (intro allI impI)
      fix m q
      assume c: "(\<forall>b \<in> set (a # us). username_of b \<noteq> Some m) \<or> q \<noteq> panel_id p"
      then have "(\<forall>b \<in> set us. username_of b \<noteq> Some m) \<or> q \<noteq> panel_id p" by auto
      with ih have "mirrored d' m q = mirrored ?d1 m q" by blast
      moreover from c Some have "\<not> (m = n \<and> q = panel_id p)" by auto
      ultimately show "mirrored d' m q = mirrored d m q" using row by simp
    qed
    have listed: "\<forall>m. (\<exists>b \<in> set (a # us). username_of b = Some m) \<longrightarrow>
                   (\<exists>v. mirrored d' m (panel_id p) = Some v
                        \<and> last_synced_at v = utcnow e
                        \<and> api_response_data v =
                            Some (last (filter (\<lambda>b. username_of b = Some m) (a # us))))"
    proof (intro allI impI)
      fix m
      assume c: "\<exists>b \<in> set (a # us). username_of b = Some m"
      show "\<exists>v. mirrored d' m (panel_id p) = Some v
               \<and> last_synced_at v = utcnow e
               \<and> api_response_data v =
                   Some (last (filter (\<lambda>b. username_of b = Some m) (a # us)))"
      proof (cases "\<exists>b \<in> set us. username_of b = Some m")
        case True
        then have ne: "filter (\<lambda>b. username_of b = Some m) us \<noteq> []"
          by (simp add: filter_empty_conv)
        from True ih obtain v where "mirrored d' m (panel_id p) = Some v"
          "last_synced_at v = utcnow e"
          "api_response_data v = Some (last (filter (\<lambda>b. username_of b = Some m) us))"
          by blast
        with ne show ?thesis by simp
      next
        case False
        with c Some have mn: "m = n" by auto
        from False have e: "filter (\<lambda>b. username_of b = Some m) us = []"
          by (simp add: filter_empty_conv)
        from False ih have "mirrored d' m (panel_id p) = mirrored ?d1 m (panel_id p)"
          by blast
        with row mn have "mirrored d' m (panel_id p) = Some ?u'" by simp
        with e mn Some show ?thesis by simp
      qed
    qed
    from ids other listed show ?thesis by blast
  qed
qed

text \<open>A run whose token request and listing succeed is the loop over the listed users.\<close>

lemma sync_run:
  assumes "truthy (decrypted_password e (panel_id p))"
    and "token_reply e = Returns tok" and "truthy tok"
    and "users_reply e = Returns raw"
    and "sync_loop e r p 0 (filter (\<lambda>u. au_creator_admin_id u = Some (marzban_admin_id r)) raw) d
           \<lparr>synced_panel_id = panel_id p, sm_reseller_id = reseller_id r,
            reseller_marzban_admin_id = marzban_admin_id r,
            total_users_from_api =
              length (filter (\<lambda>u. au_creator_admin_id u = Some (marzban_admin_id r)) raw),
            newly_added_count = 0, updated_count = 0, errors = []\<rparr> = (x, d', s')"
  shows "db_after (sync_marzban_users_for_reseller_panel e d r p) = d'
         \<and> result (sync_marzban_users_for_reseller_panel e d r p) =
             Inr (case x of None \<Rightarrow> s'
                  | Some y \<Rightarrow> s'\<lparr>errors := errors s' @ [UnexpectedErrorNote y]\<rparr>)"
  using assms
  by (simp add: sync_marzban_users_for_reseller_panel_def get_marzban_users_def Let_def
           split: option.splits)

lemmas sync_defs = sync_marzban_users_for_reseller_panel_def get_marzban_users_def
  update_marzban_user_from_api_data_def create_marzban_user_def store_user_def mirrored_def
  fresh_user_id_def truthy_def username_of_def

text \<open>
  C10. In a run whose token request and listing succeed and whose summary records no
  exception out of the loop, the total is the number of listed users, every listed user
  with a username is counted once as added or as updated, every listed user without one
  is one entry of the error list, and the list has no other entry: the total is the sum
  of the two counts and the length of the error list.
\<close>

theorem C10_sync_counts:
  assumes "truthy (decrypted_password e (panel_id p))"
    and "token_reply e = Returns tok" and "truthy tok"
    and "users_reply e = Returns raw"
    and "result (sync_marzban_users_for_reseller_panel e d r p) = Inr s"
    and "\<forall>x. UnexpectedErrorNote x \<notin> set (errors s)"
  shows "total_users_from_api s =
           length (filter (\<lambda>u. au_creator_admin_id u = Some (marzban_admin_id r)) raw)
         \<and> total_users_from_api s = newly_added_count s + updated_count s + length (errors s)
         \<and> errors s =
             map MissingUsernameNote
               (filter (\<lambda>a. username_of a = None)
                  (filter (\<lambda>u. au_creator_admin_id u = Some (marzban_admin_id r)) raw))"
proof -
  let ?us = "filter (\<lambda>u. au_creator_admin_id u = Some (marzban_admin_id r)) raw"
  let ?s0 = "\<lparr>synced_panel_id = panel_id p, sm_reseller_id = reseller_id r,
              reseller_marzban_admin_id = marzban_admin_id r,
              total_users_from_api = length ?us,
              newly_added_count = 0, updated_count = 0, errors = []\<rparr>"
  obtain x d' s' where l: "sync_loop e r p 0 ?us d ?s0 = (x, d', s')"
    by (cases "sync_loop e r p 0 ?us d ?s0")
  from sync_run [OF assms(1-4) l] assms(5)
  have s: "s = (case x of None \<Rightarrow> s'
               | Some y \<Rightarrow> s'\<lparr>errors := errors s' @ [UnexpectedErrorNote y]\<rparr>)"
    by simp
  have x: "x = None"
  proof (cases x)
    case None
    then show ?thesis .
  next
    case (Some y)
    with s have "UnexpectedErrorNote y \<in> set (errors s)" by simp
    with assms(6) show ?thesis by blast
  qed
  with s l have "s = s'" "sync_loop e r p 0 ?us d ?s0 = (None, d', s)" by simp_all
  from sync_loop_counts [OF this(2)]
  have "total_users_from_api s = length ?us"
    "newly_added_count s + updated_count s = length (filter (\<lambda>a. username_of a \<noteq> None) ?us)"
    "errors s = map MissingUsernameNote (filter (\<lambda>a. username_of a = None) ?us)"
    by simp_all
  moreover have "length (filter (\<lambda>a. username_of a \<noteq> None) ?us)
                 + length (filter (\<lambda>a. username_of a = None) ?us) = length ?us"
    using sum_length_filter_compl [of "\<lambda>a. username_of a \<noteq> None" ?us] by simp
  ultimately show ?thesis by simp
qed

lemma ex_sync_mixed:
  "result (sync_marzban_users_for_reseller_panel
             (ex_env\<lparr>users_reply := Returns [ex_api_user, ex_api_user\<lparr>au_username := None\<rparr>]\<rparr>)
             ex_db_plan ex_reseller ex_panel) =
     Inr \<lparr>synced_panel_id = 2, sm_reseller_id = 7, reseller_marzban_admin_id = 3,
          total_users_from_api = 2, newly_added_count = 0, updated_count = 1,
          errors = [MissingUsernameNote (ex_api_user\<lparr>au_username := None\<rparr>)]\<rparr>"
  by (simp add: sync_defs ex_defs Let_def)

theorem C10_sync_counts_witness:
  "result (sync_marzban_users_for_reseller_panel
             (ex_env\<lparr>users_reply := Returns [ex_api_user, ex_api_user\<lparr>au_username := None\<rparr>]\<rparr>)
             ex_db_plan ex_reseller ex_panel) =
     Inr \<lparr>synced_panel_id = 2, sm_reseller_id = 7, reseller_marzban_admin_id = 3,
          total_users_from_api = 2, newly_added_count = 0, updated_count = 1,
          errors = [MissingUsernameNote (ex_api_user\<lparr>au_username := None\<rparr>)]\<rparr>
   \<and> (2::nat) = 0 + 1 + length [MissingUsernameNote (ex_api_user\<lparr>au_username := None\<rparr>)]"
proof -
  let ?e = "ex_env\<lparr>users_reply := Returns [ex_api_user, ex_api_user\<lparr>au_username := None\<rparr>]\<rparr>"
  let ?s = "\<lparr>synced_panel_id = 2, sm_reseller_id = 7, reseller_marzban_admin_id = 3,
             total_users_from_api = 2, newly_added_count = 0, updated_count = 1,
             errors = [MissingUsernameNote (ex_api_user\<lparr>au_username := None\<rparr>)]\<rparr>"
  have h: "truthy (decrypted_password ?e (panel_id ex_panel))"
    "token_reply ?e = Returns (Some ''token'')" "truthy (Some ''token'')"
    "users_reply ?e = Returns [ex_api_user, ex_api_user\<lparr>au_username := None\<rparr>]"
    by (simp_all add: ex_defs truthy_def)
  have n: "\<forall>x. UnexpectedErrorNote x \<notin> set (errors ?s)" by simp
  note c = C10_sync_counts [OF h ex_sync_mixed n]
  show ?thesis
  proof (intro conjI)
    show "result (sync_marzban_users_for_reseller_panel ?e ex_db_plan ex_reseller ex_panel)
            = Inr ?s"
      by (rule ex_sync_mixed)
    show "(2::nat) = 0 + 1 + length [MissingUsernameNote (ex_api_user\<lparr>au_username := None\<rparr>)]"
      using c by (simp add: ex_defs username_of_def truthy_def)
  qed
qed

text \<open>
  C9, as stated, fails when the panel lists a user without a username: the second of
  two runs over the same listing adds nothing, but it also refreshes nothing, while one
  user is listed.
\<close>

theorem C9_counterexample:
  "\<not> isl (result (sync_marzban_users_for_reseller_panel
        (ex_env\<lparr>users_reply := Returns [ex_api_user\<lparr>au_username := None\<rparr>]\<rparr>)
        (db_after (sync_marzban_users_for_reseller_panel
           (ex_env\<lparr>users_reply := Returns [ex_api_user\<lparr>au_username := None\<rparr>]\<rparr>)
           ex_db_plan ex_reseller ex_panel))
        ex_reseller ex_panel))
   \<and> total_users_from_api (projr (result (sync_marzban_users_for_reseller_panel
        (ex_env\<lparr>users_reply := Returns [ex_api_user\<lparr>au_username := None\<rparr>]\<rparr>)
        (db_after (sync_marzban_users_for_reseller_panel
           (ex_env\<lparr>users_reply := Returns [ex_api_user\<lparr>au_username := None\<rparr>]\<rparr>)
           ex_db_plan ex_reseller ex_panel))
        ex_reseller ex_panel))) = 1
   \<and> updated_count (projr (result (sync_marzban_users_for_reseller_panel
        (ex_env\<lparr>users_reply := Returns [ex_api_user\<lparr>au_username := None\<rparr>]\<rparr>)
        (db_after (sync_marzban_users_for_reseller_panel
           (ex_env\<lparr>users_reply := Returns [ex_api_user\<lparr>au_username := None\<rparr>]\<rparr>)
           ex_db_plan ex_reseller ex_panel))
        ex_reseller ex_panel))) = 0
   \<and> newly_added_count (projr (result (sync_marzban_users_for_reseller_panel
        (ex_env\<lparr>users_reply := Returns [ex_api_user\<lparr>au_username := None\<rparr>]\<rparr>)
        (db_after (sync_marzban_users_for_reseller_panel
           (ex_env\<lparr>users_reply := Returns [ex_api_user\<lparr>au_username := None\<rparr>]\<rparr>)
           ex_db_plan ex_reseller ex_panel))
        ex_reseller ex_panel))) = 0"
  by (simp add: sync_defs ex_defs Let_def)

text \<open>
  C9, amended. Two runs over the same listing, the second on the tables the first left,
  both with a successful token request and listing and without an exception out of the
  loop, the mirror table having distinct primary keys: the second run adds nothing and
  counts one update for every listed user that has a username, so its count of updates
  and its username-missing errors add up to its total. It creates no row, and for every
  listed username the mirror row of that username on the panel now holds the payload
  listed for it (the last one, should the listing name it twice) and the time of the
  second run as its last synchronisation.
\<close>

theorem C9_second_sync_adds_nothing:
  assumes "distinct (map mu_id (marzban_users d))"
    and "truthy (decrypted_password e1 (panel_id p))"
    and "token_reply e1 = Returns tok1" and "truthy tok1"
    and "users_reply e1 = Returns raw"
    and "result (sync_marzban_users_for_reseller_panel e1 d r p) = Inr s1"
    and "\<forall>x. UnexpectedErrorNote x \<notin> set (errors s1)"
    and "truthy (decrypted_password e2 (panel_id p))"
    and "token_reply e2 = Returns tok2" and "truthy tok2"
    and "users_reply e2 = Returns raw"
    and "result (sync_marzban_users_for_reseller_panel e2
                   (db_after (sync_marzban_users_for_reseller_panel e1 d r p)) r p) = Inr s2"
    and "\<forall>x. UnexpectedErrorNote x \<notin> set (errors s2)"
  shows "newly_added_count s2 = 0
         \<and> updated_count s2 =
             length (filter (\<lambda>a. username_of a \<noteq> None)
                       (filter (\<lambda>u. au_creator_admin_id u = Some (marzban_admin_id r)) raw))
         \<and> updated_count s2 + length (errors s2) = total_users_from_api s2
         \<and> map mu_id (marzban_users (db_after (sync_marzban_users_for_reseller_panel e2
                   (db_after (sync_marzban_users_for_reseller_panel e1 d r p)) r p)))
             = map mu_id (marzban_users (db_after
                   (sync_marzban_users_for_reseller_panel e1 d r p)))
         \<and> (\<forall>a \<in> set (filter (\<lambda>u. au_creator_admin_id u = Some (marzban_admin_id r)) raw).
              \<forall>n. username_of a = Some n \<longrightarrow>
                (\<exists>u. mirrored (db_after (sync_marzban_users_for_reseller_panel e2
                         (db_after (sync_marzban_users_for_reseller_panel e1 d r p)) r p))
                        n (panel_id p) = Some u
                     \<and> last_synced_at u = utcnow e2
                     \<and> api_response_data u =
                         Some (last (filter (\<lambda>b. username_of b = Some n)
                           (filter (\<lambda>u. au_creator_admin_id u = Some (marzban_admin_id r))
                              raw)))))"
proof -
  let ?us = "filter (\<lambda>u. au_creator_admin_id u = Some (marzban_admin_id r)) raw"
  let ?s0 = "\<lparr>synced_panel_id = panel_id p, sm_reseller_id = reseller_id r,
              reseller_marzban_admin_id = marzban_admin_id r,
              total_users_from_api = length ?us,
              newly_added_count = 0, updated_count = 0, errors = []\<rparr>"
  let ?d1 = "db_after (sync_marzban_users_for_reseller_panel e1 d r p)"
  let ?d2 = "db_after (sync_marzban_users_for_reseller_panel e2 ?d1 r p)"
  obtain x d' s' where l1: "sync_loop e1 r p 0 ?us d ?s0 = (x, d', s')"
    by (cases "sync_loop e1 r p 0 ?us d ?s0")
  from sync_run [OF assms(2-5) l1] assms(6)
  have r1: "?d1 = d'" "s1 = (case x of None \<Rightarrow> s'
               | Some y \<Rightarrow> s'\<lparr>errors := errors s' @ [UnexpectedErrorNote y]\<rparr>)"
    by simp_all
  have "x = None"
  proof (cases x)
    case None
    then show ?thesis .
  next
    case (Some y)
    with r1 have "UnexpectedErrorNote y \<in> set (errors s1)" by simp
    with assms(7) show ?thesis by blast
  qed
  with l1 r1 have l1': "sync_loop e1 r p 0 ?us d ?s0 = (None, ?d1, s')" by simp
  from sync_loop_mirrors [OF assms(1) l1']
  have dist: "distinct (map mu_id (marzban_users ?d1))"
    and pres: "\<forall>a \<in> set ?us. \<forall>n. username_of a = Some n \<longrightarrow> mirrored ?d1 n (panel_id p) \<noteq> None"
    by simp_all
  obtain x2 d2 s2' where l2: "sync_loop e2 r p 0 ?us ?d1 ?s0 = (x2, d2, s2')"
    by (cases "sync_loop e2 r p 0 ?us ?d1 ?s0")
  from sync_run [OF assms(8-11) l2] assms(12)
  have r2: "?d2 = d2" "s2 = (case x2 of None \<Rightarrow> s2'
               | Some y \<Rightarrow> s2'\<lparr>errors := errors s2' @ [UnexpectedErrorNote y]\<rparr>)"
    by simp_all
  have "x2 = None"
  proof (cases x2)
    case None
    then show ?thesis .
  next
    case (Some y)
    with r2 have "UnexpectedErrorNote y \<in> set (errors s2)" by simp
    with assms(13) show ?thesis by blast
  qed
  with l2 r2 have l2': "sync_loop e2 r p 0 ?us ?d1 ?s0 = (None, ?d2, s2)" by simp
  from sync_loop_nothing_new [OF dist pres l2'] have new: "newly_added_count s2 = 0" by simp
  from sync_loop_counts [OF l2'] new
  have "total_users_from_api s2 = length ?us"
    "updated_count s2 = length (filter (\<lambda>a. username_of a \<noteq> None) ?us)"
    "length (errors s2) = length (filter (\<lambda>a. username_of a = None) ?us)"
    by simp_all
  moreover have "length (filter (\<lambda>a. username_of a \<noteq> None) ?us)
                 + length (filter (\<lambda>a. username_of a = None) ?us) = length ?us"
    using sum_length_filter_compl [of "\<lambda>a. username_of a \<noteq> None" ?us] by simp
  ultimately have counts: "newly_added_count s2 = 0
         \<and> updated_count s2 = length (filter (\<lambda>a. username_of a \<noteq> None) ?us)
         \<and> updated_count s2 + length (errors s2) = total_users_from_api s2"
    using new by simp
  from sync_loop_refreshes [OF dist pres l2']
  have ids: "map mu_id (marzban_users ?d2) = map mu_id (marzban_users ?d1)"
    and rows: "\<forall>n. (\<exists>a \<in> set ?us. username_of a = Some n) \<longrightarrow>
            (\<exists>u. mirrored ?d2 n (panel_id p) = Some u
                 \<and> last_synced_at u = utcnow e2
                 \<and> api_response_data u =
                     Some (last (filter (\<lambda>a. username_of a = Some n) ?us)))"
    by simp_all
  from rows have rows': "\<forall>a \<in> set ?us. \<forall>n. username_of a = Some n \<longrightarrow>
            (\<exists>u. mirrored ?d2 n (panel_id p) = Some u
                 \<and> last_synced_at u = utcnow e2
                 \<and> api_response_data u =
                     Some (last (filter (\<lambda>b. username_of b = Some n) ?us)))"
    by blast
  from counts ids rows' show ?thesis by blast
qed

lemma ex_sync_first:
  "sync_marzban_users_for_reseller_panel
     (ex_env\<lparr>users_reply :=
        Returns [ex_api_user, ex_api_user\<lparr>au_username := Some ''eve''\<rparr>,
                 ex_api_user\<lparr>au_username := None\<rparr>]\<rparr>)
     ex_db_plan ex_reseller ex_panel =
     \<lparr>result =
        Inr \<lparr>synced_panel_id = 2, sm_reseller_id = 7, reseller_marzban_admin_id = 3,
             total_users_from_api = 3, newly_added_count = 1, updated_count = 1,
             errors = [MissingUsernameNote (ex_api_user\<lparr>au_username := None\<rparr>)]\<rparr>,
      reseller_after = ex_reseller,
      db_after =
        ex_db_plan\<lparr>marzban_users :=
          [ex_mirror\<lparr>api_response_data := Some ex_api_user,
                      last_synced_at := 1700000000000000\<rparr>,
           \<lparr>mu_id = 5, marzban_username = ''eve'', marzban_panel_id = 2, mu_reseller_id = 7,
            created_by_new_panel = False, mu_notes = Some ''Synced from Marzban panel.'',
            last_synced_at = 1700000000000000,
            api_response_data = Some (ex_api_user\<lparr>au_username := Some ''eve''\<rparr>)\<rparr>]\<rparr>,
      remote_calls = [TokenRequest ''https://panel.example'' ''admin'',
                      UsersRequest ''https://panel.example'']\<rparr>"
  by (simp add: sync_defs ex_defs Let_def)

lemma ex_sync_second:
  "result (sync_marzban_users_for_reseller_panel
     (ex_env\<lparr>users_reply :=
        Returns [ex_api_user, ex_api_user\<lparr>au_username := Some ''eve''\<rparr>,
                 ex_api_user\<lparr>au_username := None\<rparr>]\<rparr>)
     (ex_db_plan\<lparr>marzban_users :=
          [ex_mirror\<lparr>api_response_data := Some ex_api_user,
                      last_synced_at := 1700000000000000\<rparr>,
           \<lparr>mu_id = 5, marzban_username = ''eve'', marzban_panel_id = 2, mu_reseller_id = 7,
            created_by_new_panel = False, mu_notes = Some ''Synced from Marzban panel.'',
            last_synced_at = 1700000000000000,
            api_response_data = Some (ex_api_user\<lparr>au_username := Some ''eve''\<rparr>)\<rparr>]\<rparr>)
     ex_reseller ex_panel) =
     Inr \<lparr>synced_panel_id = 2, sm_reseller_id = 7, reseller_marzban_admin_id = 3,
          total_users_from_api = 3, newly_added_count = 0, updated_count = 2,
          errors = [MissingUsernameNote (ex_api_user\<lparr>au_username := None\<rparr>)]\<rparr>"
  by (simp add: sync_defs ex_defs Let_def)

theorem C9_second_sync_adds_nothing_witness:
  "distinct (map mu_id (marzban_users ex_db_plan))
   \<and> result (sync_marzban_users_for_reseller_panel
        (ex_env\<lparr>users_reply :=
           Returns [ex_api_user, ex_api_user\<lparr>au_username := Some ''eve''\<rparr>,
                    ex_api_user\<lparr>au_username := None\<rparr>]\<rparr>)
        (db_after (sync_marzban_users_for_reseller_panel
           (ex_env\<lparr>users_reply :=
              Returns [ex_api_user, ex_api_user\<lparr>au_username := Some ''eve''\<rparr>,
                       ex_api_user\<lparr>au_username := None\<rparr>]\<rparr>)
           ex_db_plan ex_reseller ex_panel))
        ex_reseller ex_panel) =
       Inr \<lparr>synced_panel_id = 2, sm_reseller_id = 7, reseller_marzban_admin_id = 3,
            total_users_from_api = 3, newly_added_count = 0, updated_count = 2,
            errors = [MissingUsernameNote (ex_api_user\<lparr>au_username := None\<rparr>)]\<rparr>
   \<and> (2::nat) + length [MissingUsernameNote (ex_api_user\<lparr>au_username := None\<rparr>)] = 3"
proof -
  let ?e = "ex_env\<lparr>users_reply :=
              Returns [ex_api_user, ex_api_user\<lparr>au_username := Some ''eve''\<rparr>,
                       ex_api_user\<lparr>au_username := None\<rparr>]\<rparr>"
  let ?s1 = "\<lparr>synced_panel_id = 2, sm_reseller_id = 7, reseller_marzban_admin_id = 3,
              total_users_from_api = 3, newly_added_count = 1, updated_count = 1,
              errors = [MissingUsernameNote (ex_api_user\<lparr>au_username := None\<rparr>)]\<rparr>"
  let ?s2 = "\<lparr>synced_panel_id = 2, sm_reseller_id = 7, reseller_marzban_admin_id = 3,
              total_users_from_api = 3, newly_added_count = 0, updated_count = 2,
              errors = [MissingUsernameNote (ex_api_user\<lparr>au_username := None\<rparr>)]\<rparr>"
  let ?run1 = "sync_marzban_users_for_reseller_panel ?e ex_db_plan ex_reseller ex_panel"
  have d: "distinct (map mu_id (marzban_users ex_db_plan))"
    by (simp add: ex_defs)
  have h: "truthy (decrypted_password ?e (panel_id ex_panel))"
    "token_reply ?e = Returns (Some ''token'')" "truthy (Some ''token'')"
    "users_reply ?e = Returns [ex_api_user, ex_api_user\<lparr>au_username := Some ''eve''\<rparr>,
                               ex_api_user\<lparr>au_username := None\<rparr>]"
    by (simp_all add: ex_defs truthy_def)
  have r1: "result ?run1 = Inr ?s1"
    by (simp add: ex_sync_first)
  have r2: "result (sync_marzban_users_for_reseller_panel ?e (db_after ?run1) ex_reseller
                      ex_panel) = Inr ?s2"
    by (simp add: ex_sync_first ex_sync_second)
  have n: "\<forall>x. UnexpectedErrorNote x \<notin> set (errors ?s1)"
    "\<forall>x. UnexpectedErrorNote x \<notin> set (errors ?s2)"
    by simp_all
  note c = C9_second_sync_adds_nothing [OF d h r1 n(1) h r2 n(2)]
  from c have c3: "updated_count ?s2 + length (errors ?s2) = total_users_from_api ?s2"
    by (elim conjE)
  show ?thesis
  proof (intro conjI)
    show "distinct (map mu_id (marzban_users ex_db_plan))" by (rule d)
    show "result (sync_marzban_users_for_reseller_panel ?e (db_after ?run1) ex_reseller
                    ex_panel) = Inr ?s2"
      by (rule r2)
    show "(2::nat) + length [MissingUsernameNote (ex_api_user\<lparr>au_username := None\<rparr>)] = 3"
      using c3 by simp
  qed
qed

end
